theory Spec2Isabelle
  imports Main
begin

section \<open>The cache record and its table definition\<close>

text \<open>
  The \<open>ProcessCache\<close> model class. The class declares \<open>machine\<close> as a number while the
  column is a STRING column; the row that comes back from the table holds a string, which
  is what the record below has. Field names carry the prefix \<open>pc_\<close> because \<open>id\<close> is a
  constant of HOL.
\<close>

record ProcessCache =
  pc_id :: int
  pc_process :: int
  pc_job :: int
  pc_machine :: string
  pc_key :: string
  pc_value :: string
  pc_createdAt :: int
  pc_updatedAt :: int

datatype DataTypes = INTEGER | STRING | TEXT

datatype column_value = IntVal int | StrVal string

text \<open>One entry of a \<open>Sequelize.ModelAttributes\<close> object. An option the source leaves out
  (\<open>primaryKey\<close>, \<open>autoIncrement\<close>, \<open>defaultValue\<close>) has its library default: off, or none.\<close>

record attribute =
  attr_type :: DataTypes
  primaryKey :: bool
  allowNull :: bool
  defaultValue :: "column_value option"
  autoIncrement :: bool

definition ProcessCacheAttributeDefinition :: "(string \<times> attribute) list" where
  "ProcessCacheAttributeDefinition =
    [(''id'', \<lparr>attr_type = INTEGER, primaryKey = True, allowNull = False,
              defaultValue = None, autoIncrement = True\<rparr>),
     (''process'', \<lparr>attr_type = INTEGER, primaryKey = False, allowNull = False,
              defaultValue = Some (IntVal 0), autoIncrement = False\<rparr>),
     (''job'', \<lparr>attr_type = INTEGER, primaryKey = False, allowNull = False,
              defaultValue = Some (IntVal 0), autoIncrement = False\<rparr>),
     (''machine'', \<lparr>attr_type = STRING, primaryKey = False, allowNull = False,
              defaultValue = Some (StrVal []), autoIncrement = False\<rparr>),
     (''key'', \<lparr>attr_type = STRING, primaryKey = False, allowNull = False,
              defaultValue = Some (StrVal []), autoIncrement = False\<rparr>),
     (''value'', \<lparr>attr_type = TEXT, primaryKey = False, allowNull = False,
              defaultValue = None, autoIncrement = False\<rparr>),
     (''createdAt'', \<lparr>attr_type = INTEGER, primaryKey = False, allowNull = False,
              defaultValue = Some (IntVal 0), autoIncrement = False\<rparr>),
     (''updatedAt'', \<lparr>attr_type = INTEGER, primaryKey = False, allowNull = False,
              defaultValue = Some (IntVal 0), autoIncrement = False\<rparr>)]"

text \<open>The options object that \<open>ProcessCacheFactory.init\<close> hands to \<open>ProcessCache.init\<close>.
  The model name is the enum member \<open>Models.ProcessCache\<close>, whose value is declared in
  another file: it is a parameter here. An index is (unique, fields).\<close>

record init_options =
  modelName :: string
  tableName :: string
  timestamps :: bool
  indexes :: "(bool \<times> string list) list"

definition ProcessCacheFactory_init :: "string \<Rightarrow> init_options" where
  "ProcessCacheFactory_init models_ProcessCache =
    \<lparr>modelName = models_ProcessCache,
     tableName = ''process_cache'',
     timestamps = False,
     indexes = [(False, [''process'']), (False, [''job'']),
                (False, [''key'']), (False, [''machine''])]\<rparr>"

text \<open>
  What the table stores in one column of a new row, as the attribute definition and the
  options decide it (the library's insert, cut down to that): a value the caller gives is
  stored; an auto-increment column gets the next id; with the \<open>timestamps\<close> option on, the
  library stamps \<open>createdAt\<close> and \<open>updatedAt\<close> with the clock; otherwise the column's
  \<open>defaultValue\<close> is stored; a column with none of these that does not allow null makes
  the insert fail.
\<close>

datatype insert_error = NotNullViolation string

definition stored_column ::
  "init_options \<Rightarrow> int \<Rightarrow> int \<Rightarrow> (string \<rightharpoonup> column_value) \<Rightarrow> string \<times> attribute
     \<Rightarrow> insert_error + column_value option" where
  "stored_column opts now next_id given col =
    (case given (fst col) of
       Some v \<Rightarrow> Inr (Some v)
     | None \<Rightarrow>
        if autoIncrement (snd col) then Inr (Some (IntVal next_id))
        else if timestamps opts \<and> (fst col = ''createdAt'' \<or> fst col = ''updatedAt'')
          then Inr (Some (IntVal now))
        else (case defaultValue (snd col) of
                Some d \<Rightarrow> Inr (Some d)
              | None \<Rightarrow> if allowNull (snd col) then Inr None
                        else Inl (NotNullViolation (fst col))))"

fun stored_row ::
  "init_options \<Rightarrow> int \<Rightarrow> int \<Rightarrow> (string \<rightharpoonup> column_value) \<Rightarrow> (string \<times> attribute) list
     \<Rightarrow> insert_error + (string \<times> column_value option) list" where
  "stored_row opts now next_id given [] = Inr []"
| "stored_row opts now next_id given (col # cols) =
    (case stored_column opts now next_id given col of
       Inl e \<Rightarrow> Inl e
     | Inr v \<Rightarrow> (case stored_row opts now next_id given cols of
                  Inl e \<Rightarrow> Inl e
                | Inr row \<Rightarrow> Inr ((fst col, v) # row)))"

definition ProcessCache_create ::
  "string \<Rightarrow> int \<Rightarrow> int \<Rightarrow> (string \<rightharpoonup> column_value)
     \<Rightarrow> insert_error + (string \<times> column_value option) list" where
  "ProcessCache_create models_ProcessCache now next_id given =
     stored_row (ProcessCacheFactory_init models_ProcessCache) now next_id given
       ProcessCacheAttributeDefinition"

section \<open>Promises\<close>

text \<open>
  Every method of \<open>Job\<close> is declared to return a promise, and so is every method of a
  collaborator that it calls. A job has one logical caller, so a call is modelled by how
  it ends: it returns a promise that is fulfilled with a value, rejected with an error, or
  never settled; or it throws before it has returned anything (\<open>Thrown\<close>), as any call
  can.
\<close>

datatype error = TypeError | CollaboratorError string

datatype 'a outcome = Fulfilled 'a | Rejected error | Pending | Thrown error

text \<open>\<open>await f()\<close> inside an \<open>async\<close> function: the rest of the body runs on the value of a
  fulfilled promise; a rejected promise throws at the \<open>await\<close>, and a call that throws
  throws there too: either way the body is left and the promise of the \<open>async\<close> function
  itself is rejected; a promise that never settles suspends the body for good.\<close>

definition await ::
  "('s \<Rightarrow> 'a outcome \<times> 's) \<Rightarrow> ('a \<Rightarrow> 's \<Rightarrow> 'b outcome \<times> 's) \<Rightarrow> 's \<Rightarrow> 'b outcome \<times> 's" where
  "await m f s =
    (case m s of
       (Fulfilled a, s') \<Rightarrow> f a s'
     | (Rejected e, s') \<Rightarrow> (Rejected e, s')
     | (Pending, s') \<Rightarrow> (Pending, s')
     | (Thrown e, s') \<Rightarrow> (Rejected e, s'))"

text \<open>
  \<open>new Promise(async (resolve) => { ...; resolve(); })\<close>: the executor is an \<open>async\<close>
  function whose own promise nobody holds. The outer promise is given only \<open>resolve\<close>, so
  it is fulfilled when the body reaches \<open>resolve()\<close>; when the body throws, the executor's
  promise is rejected (an unhandled rejection) and the outer promise is never settled. An
  \<open>async\<close> function does not throw to its caller, so the constructor has nothing to catch.
\<close>

definition new_Promise_async :: "('s \<Rightarrow> 'a outcome \<times> 's) \<Rightarrow> 's \<Rightarrow> 'a outcome \<times> 's" where
  "new_Promise_async body s =
    (case body s of
       (Fulfilled a, s') \<Rightarrow> (Fulfilled a, s')
     | (Rejected e, s') \<Rightarrow> (Pending, s')
     | (Pending, s') \<Rightarrow> (Pending, s')
     | (Thrown e, s') \<Rightarrow> (Pending, s'))"

section \<open>Objects used as dictionaries\<close>

text \<open>
  \<open>cacheTree\<close> starts as the object literal \<open>{}\<close>, so reading \<open>cacheTree[k]\<close> finds an own
  property if there is one and otherwise looks \<open>k\<close> up in \<open>Object.prototype\<close>. The names
  below are the properties of \<open>Object.prototype\<close>; each is a function, but \<open>__proto__\<close>,
  which reads as the prototype object. For any other name the read yields \<open>undefined\<close>.
\<close>

definition Object_prototype_properties :: "string list" where
  "Object_prototype_properties =
    [''constructor'', ''__defineGetter__'', ''__defineSetter__'', ''hasOwnProperty'',
     ''__lookupGetter__'', ''__lookupSetter__'', ''isPrototypeOf'',
     ''propertyIsEnumerable'', ''toString'', ''valueOf'', ''__proto__'',
     ''toLocaleString'']"

datatype 'a property = Own 'a | Inherited | Undefined

definition get_property :: "(string \<rightharpoonup> 'a) \<Rightarrow> string \<Rightarrow> 'a property" where
  "get_property obj k =
    (case obj k of
       Some v \<Rightarrow> Own v
     | None \<Rightarrow> if k \<in> set Object_prototype_properties then Inherited else Undefined)"

section \<open>The job controller (process/job)\<close>

subsection \<open>Collaborators\<close>

text \<open>
  \<open>ProcessManager\<close> and \<open>Machine\<close> are classes of other files: a job only calls them, so
  they are parameters of the model, one function per method. \<open>'w\<close> is whatever the
  collaborators keep (the database); \<open>'p\<close>, \<open>'j\<close> and \<open>'l\<close> are the process, job and job-log
  models. A job passes \<open>this.process as ProcessModel\<close> and
  \<open>this.processJob as ProcessJobModel\<close>: the cast checks nothing, so before \<open>load\<close> the
  machine is handed null; the machine's methods take options for that reason.
\<close>

datatype ProcessLogTypes = Generic | OtherLogType nat

record ('w, 'p, 'j) ProcessManager =
  pm_load :: "'w \<Rightarrow> unit outcome \<times> 'w"
  pm_createProcess :: "string \<Rightarrow> 'w \<Rightarrow> 'p outcome \<times> 'w"
  pm_createJob :: "'p \<Rightarrow> string \<Rightarrow> 'w \<Rightarrow> 'j outcome \<times> 'w"

record ('w, 'p, 'j, 'l) Machine =
  m_load :: "'w \<Rightarrow> unit outcome \<times> 'w"
  m_createLog :: "'p option \<Rightarrow> 'j option \<Rightarrow> string \<Rightarrow> ProcessLogTypes \<Rightarrow> 'w \<Rightarrow> 'l outcome \<times> 'w"
  m_createCache :: "'p option \<Rightarrow> 'j option \<Rightarrow> string \<Rightarrow> string \<Rightarrow> 'w
                      \<Rightarrow> ProcessCache outcome \<times> 'w"
  m_getCache :: "'p option \<Rightarrow> 'j option \<Rightarrow> string \<Rightarrow> 'w \<Rightarrow> ProcessCache list outcome \<times> 'w"
  m_hasCacheKey :: "'p option \<Rightarrow> 'j option \<Rightarrow> string \<Rightarrow> 'w \<Rightarrow> bool outcome \<times> 'w"
  m_hasCache :: "'p option \<Rightarrow> 'j option \<Rightarrow> 'w \<Rightarrow> bool outcome \<times> 'w"
  m_getFullCache :: "'p option \<Rightarrow> 'j option \<Rightarrow> 'w \<Rightarrow> ProcessCache list outcome \<times> 'w"

subsection \<open>The fields of a job\<close>

text \<open>The fields \<open>machine\<close> and \<open>processManager\<close> are the two collaborators above, which
  every method below takes as arguments.\<close>

record ('p, 'j) Job =
  jobName :: string
  processName :: string
  processJob :: "'j option"
  process :: "'p option"
  cacheResults :: "int \<rightharpoonup> ProcessCache"
  cacheTree :: "string \<rightharpoonup> ProcessCache list"
  loaded :: bool

text \<open>The abstract methods \<open>onCacheExist\<close> and \<open>onCacheEmpty\<close> of a concrete job. They are
  methods of the object: they read and write its fields, and reach the database.\<close>

record ('w, 'p, 'j) hooks =
  onCacheExist :: "('p, 'j) Job \<Rightarrow> 'w \<Rightarrow> unit outcome \<times> ('p, 'j) Job \<times> 'w"
  onCacheEmpty :: "('p, 'j) Job \<Rightarrow> 'w \<Rightarrow> unit outcome \<times> ('p, 'j) Job \<times> 'w"

text \<open>
  What a method runs on: the job, the collaborators' world, and a log of the calls the job
  has made to its collaborators and to its hooks. The log is not a field of the source; it
  is there so that "is called", "is not called" and "is called once" can be stated.
\<close>

datatype call =
    ProcessManager_load
  | Machine_load
  | CreateProcess string
  | CreateJob string
  | Machine_createLog string ProcessLogTypes
  | Machine_createCache string string
  | Machine_getCache string
  | Machine_hasCacheKey string
  | Machine_hasCache
  | Machine_getFullCache
  | OnCacheExist
  | OnCacheEmpty

record ('w, 'p, 'j) ctx =
  self :: "('p, 'j) Job"
  world :: 'w
  calls :: "call list"

definition collaborator ::
  "call \<Rightarrow> ('w \<Rightarrow> 'a outcome \<times> 'w) \<Rightarrow> ('w, 'p, 'j) ctx \<Rightarrow> 'a outcome \<times> ('w, 'p, 'j) ctx" where
  "collaborator c f s =
    (case f (world s) of (r, w') \<Rightarrow> (r, s\<lparr>world := w', calls := calls s @ [c]\<rparr>))"

definition hook ::
  "call \<Rightarrow> (('p, 'j) Job \<Rightarrow> 'w \<Rightarrow> unit outcome \<times> ('p, 'j) Job \<times> 'w)
     \<Rightarrow> ('w, 'p, 'j) ctx \<Rightarrow> unit outcome \<times> ('w, 'p, 'j) ctx" where
  "hook c h s =
    (case h (self s) (world s) of
       (r, j', w') \<Rightarrow> (r, s\<lparr>self := j', world := w', calls := calls s @ [c]\<rparr>))"

subsection \<open>constructor\<close>

definition constructor :: "string \<Rightarrow> string \<Rightarrow> ('p, 'j) Job" where
  "constructor processName' jobName' =
    \<lparr>jobName = jobName', processName = processName', processJob = None, process = None,
     cacheResults = Map.empty, cacheTree = Map.empty, loaded = False\<rparr>"

subsection \<open>The public wrappers\<close>

text \<open>Each is \<open>return this.machine.m(...)\<close>: it returns the machine's promise as it is, and
  throws what the machine's method throws. A caller of \<open>createLog\<close> that leaves the log
  type out passes \<open>Generic\<close>.\<close>

definition createLog ::
  "('w, 'p, 'j, 'l) Machine \<Rightarrow> string \<Rightarrow> ProcessLogTypes \<Rightarrow> ('w, 'p, 'j) ctx
     \<Rightarrow> 'l outcome \<times> ('w, 'p, 'j) ctx" where
  "createLog M message logType s =
     collaborator (Machine_createLog message logType)
       (m_createLog M (process (self s)) (processJob (self s)) message logType) s"

definition getCache ::
  "('w, 'p, 'j, 'l) Machine \<Rightarrow> string \<Rightarrow> ('w, 'p, 'j) ctx
     \<Rightarrow> ProcessCache list outcome \<times> ('w, 'p, 'j) ctx" where
  "getCache M key s =
     collaborator (Machine_getCache key)
       (m_getCache M (process (self s)) (processJob (self s)) key) s"

definition hasCacheKey ::
  "('w, 'p, 'j, 'l) Machine \<Rightarrow> string \<Rightarrow> ('w, 'p, 'j) ctx \<Rightarrow> bool outcome \<times> ('w, 'p, 'j) ctx" where
  "hasCacheKey M key s =
     collaborator (Machine_hasCacheKey key)
       (m_hasCacheKey M (process (self s)) (processJob (self s)) key) s"

definition hasCache ::
  "('w, 'p, 'j, 'l) Machine \<Rightarrow> ('w, 'p, 'j) ctx \<Rightarrow> bool outcome \<times> ('w, 'p, 'j) ctx" where
  "hasCache M s =
     collaborator Machine_hasCache (m_hasCache M (process (self s)) (processJob (self s))) s"

definition getFullCache ::
  "('w, 'p, 'j, 'l) Machine \<Rightarrow> ('w, 'p, 'j) ctx
     \<Rightarrow> ProcessCache list outcome \<times> ('w, 'p, 'j) ctx" where
  "getFullCache M s =
     collaborator Machine_getFullCache
       (m_getFullCache M (process (self s)) (processJob (self s))) s"

subsection \<open>The index\<close>

text \<open>
  The statement pair
  \<^verbatim>\<open>if (typeof this.cacheTree[k] == 'undefined') { this.cacheTree[k] = []; }
this.cacheTree[k].push(r);\<close>
  which \<open>syncCache\<close> and \<open>createCache\<close> share. Where the read finds an inherited property
  the bucket is not created, and \<open>push\<close> is not a method of what was found: the call throws
  a \<open>TypeError\<close>.
\<close>

definition push_cacheTree ::
  "(string \<rightharpoonup> ProcessCache list) \<Rightarrow> ProcessCache \<Rightarrow> error + (string \<rightharpoonup> ProcessCache list)" where
  "push_cacheTree tree r =
    (let tree1 = (if get_property tree (pc_key r) = Undefined
                  then tree(pc_key r \<mapsto> []) else tree)
     in case get_property tree1 (pc_key r) of
          Own bucket \<Rightarrow> Inr (tree1(pc_key r \<mapsto> bucket @ [r]))
        | Inherited \<Rightarrow> Inl TypeError
        | Undefined \<Rightarrow> Inl TypeError)"

text \<open>The loop of \<open>syncCache\<close> over \<open>resultCache\<close>, from index 0 up: push into the tree, then
  store under the id. A throw leaves the loop, with what was stored so far.\<close>

fun syncCache_loop ::
  "ProcessCache list \<Rightarrow> ('p, 'j) Job \<Rightarrow> unit outcome \<times> ('p, 'j) Job" where
  "syncCache_loop [] j = (Fulfilled (), j)"
| "syncCache_loop (r # rs) j =
    (case push_cacheTree (cacheTree j) r of
       Inl e \<Rightarrow> (Rejected e, j)
     | Inr tree \<Rightarrow>
         syncCache_loop rs
           (j\<lparr>cacheTree := tree, cacheResults := (cacheResults j)(pc_id r \<mapsto> r)\<rparr>))"

definition syncCache ::
  "('w, 'p, 'j, 'l) Machine \<Rightarrow> ('w, 'p, 'j) ctx \<Rightarrow> unit outcome \<times> ('w, 'p, 'j) ctx" where
  "syncCache M =
    new_Promise_async
      (\<lambda>s. await (getFullCache M)
             (\<lambda>resultCache s1.
                case syncCache_loop resultCache (self s1) of
                  (r, j') \<Rightarrow> (r, s1\<lparr>self := j'\<rparr>))
             (s\<lparr>self := (self s)\<lparr>cacheResults := Map.empty, cacheTree := Map.empty\<rparr>\<rparr>))"

subsection \<open>createCache\<close>

text \<open>
  \<open>new Promise((resolve) => { machine.createCache(...).then((result) => { ...;
  resolve(result); }); })\<close>. The executor is not \<open>async\<close>: it runs inside the constructor,
  and when \<open>machine.createCache(...)\<close> throws, the constructor catches the error and rejects
  the promise with it. Otherwise the promise is given only \<open>resolve\<close>, and \<open>then\<close> is given
  only a fulfilment handler: when the machine's promise is rejected, or the handler throws,
  the promise that \<open>then\<close> returns is rejected and \<open>resolve\<close> is never called. The handler
  stores under the id first and pushes into the tree second.
\<close>

definition createCache ::
  "('w, 'p, 'j, 'l) Machine \<Rightarrow> string \<Rightarrow> string \<Rightarrow> ('w, 'p, 'j) ctx
     \<Rightarrow> ProcessCache outcome \<times> ('w, 'p, 'j) ctx" where
  "createCache M key value s =
    (case collaborator (Machine_createCache key value)
            (m_createCache M (process (self s)) (processJob (self s)) key value) s of
       (Fulfilled result, s1) \<Rightarrow>
         (let j1 = (self s1)\<lparr>cacheResults := (cacheResults (self s1))(pc_id result \<mapsto> result)\<rparr>
          in case push_cacheTree (cacheTree j1) result of
               Inl e \<Rightarrow> (Pending, s1\<lparr>self := j1\<rparr>)
             | Inr tree \<Rightarrow> (Fulfilled result, s1\<lparr>self := j1\<lparr>cacheTree := tree\<rparr>\<rparr>))
     | (Rejected e, s1) \<Rightarrow> (Pending, s1)
     | (Pending, s1) \<Rightarrow> (Pending, s1)
     | (Thrown e, s1) \<Rightarrow> (Rejected e, s1))"

subsection \<open>load\<close>

definition set_process :: "'p \<Rightarrow> ('w, 'p, 'j) ctx \<Rightarrow> ('w, 'p, 'j) ctx" where
  "set_process p s = s\<lparr>self := (self s)\<lparr>process := Some p\<rparr>\<rparr>"

definition set_processJob :: "'j \<Rightarrow> ('w, 'p, 'j) ctx \<Rightarrow> ('w, 'p, 'j) ctx" where
  "set_processJob pj s = s\<lparr>self := (self s)\<lparr>processJob := Some pj\<rparr>\<rparr>"

definition set_loaded :: "('w, 'p, 'j) ctx \<Rightarrow> unit outcome \<times> ('w, 'p, 'j) ctx" where
  "set_loaded s = (Fulfilled (), s\<lparr>self := (self s)\<lparr>loaded := True\<rparr>\<rparr>)"

text \<open>The part of \<open>load\<close> after the two identities are assigned: the existence check and
  its two branches, then the flag.\<close>

definition load_branch ::
  "('w, 'p, 'j, 'l) Machine \<Rightarrow> ('w, 'p, 'j) hooks \<Rightarrow> ('w, 'p, 'j) ctx
     \<Rightarrow> unit outcome \<times> ('w, 'p, 'j) ctx" where
  "load_branch M H =
     await (hasCache M)
       (\<lambda>hasCache'.
          if hasCache'
          then await (syncCache M)
                 (\<lambda>_. await (hook OnCacheExist (onCacheExist H)) (\<lambda>_. set_loaded))
          else await (hook OnCacheEmpty (onCacheEmpty H)) (\<lambda>_. set_loaded))"

definition load_body ::
  "('w, 'p, 'j) ProcessManager \<Rightarrow> ('w, 'p, 'j, 'l) Machine \<Rightarrow> ('w, 'p, 'j) hooks
     \<Rightarrow> ('w, 'p, 'j) ctx \<Rightarrow> unit outcome \<times> ('w, 'p, 'j) ctx" where
  "load_body PM M H =
     await (collaborator ProcessManager_load (pm_load PM))
       (\<lambda>_. await (collaborator Machine_load (m_load M))
          (\<lambda>_ s. await (collaborator (CreateProcess (processName (self s)))
                          (pm_createProcess PM (processName (self s))))
             (\<lambda>p s1. await (collaborator (CreateJob (jobName (self s1)))
                              (pm_createJob PM p (jobName (self s1))))
                (\<lambda>pj s2. load_branch M H (set_processJob pj s2))
                (set_process p s1))
             s))"

definition load ::
  "('w, 'p, 'j) ProcessManager \<Rightarrow> ('w, 'p, 'j, 'l) Machine \<Rightarrow> ('w, 'p, 'j) hooks
     \<Rightarrow> ('w, 'p, 'j) ctx \<Rightarrow> unit outcome \<times> ('w, 'p, 'j) ctx" where
  "load PM M H s =
     (if loaded (self s) = False then new_Promise_async (load_body PM M H) s
      else (Fulfilled (), s))"

section \<open>A database and its collaborators\<close>

text \<open>
  The classes \<open>Machine\<close> and \<open>ProcessManager\<close> and the process, job and log models are not
  among the files at hand. Where a statement needs what they do, and not only that they
  are called, it is made about the collaborators of this section.
\<close>

record ProcessModel =
  p_id :: int
  p_name :: string

record ProcessJobModel =
  j_id :: int
  j_process :: int
  j_name :: string

record ProcessJobLogModel =
  l_id :: int
  l_process :: int
  l_job :: int
  l_machine :: string
  l_message :: string
  l_type :: ProcessLogTypes

record database =
  processes :: "ProcessModel list"
  jobs :: "ProcessJobModel list"
  cache :: "ProcessCache list"
  logs :: "ProcessJobLogModel list"

definition empty_database :: database where
  "empty_database = \<lparr>processes = [], jobs = [], cache = [], logs = []\<rparr>"

text \<open>Modelled from the spec: the identity resolver (the class \<open>ProcessManager\<close>, missing
  here). "Resolves/creates a process by name and a job by (process, name); idempotent,
  returns the same identity on repeated calls": the record of that name if there is one,
  a new record with the next id otherwise.\<close>

definition resolveProcess :: "string \<Rightarrow> database \<Rightarrow> ProcessModel outcome \<times> database" where
  "resolveProcess name w =
    (case find (\<lambda>p. p_name p = name) (processes w) of
       Some p \<Rightarrow> (Fulfilled p, w)
     | None \<Rightarrow>
        (let p = \<lparr>p_id = int (length (processes w)) + 1, p_name = name\<rparr>
         in (Fulfilled p, w\<lparr>processes := processes w @ [p]\<rparr>)))"

definition resolveJob ::
  "ProcessModel \<Rightarrow> string \<Rightarrow> database \<Rightarrow> ProcessJobModel outcome \<times> database" where
  "resolveJob p name w =
    (case find (\<lambda>j. j_process j = p_id p \<and> j_name j = name) (jobs w) of
       Some j \<Rightarrow> (Fulfilled j, w)
     | None \<Rightarrow>
        (let j = \<lparr>j_id = int (length (jobs w)) + 1, j_process = p_id p, j_name = name\<rparr>
         in (Fulfilled j, w\<lparr>jobs := jobs w @ [j]\<rparr>)))"

definition IdentityResolver :: "(database, ProcessModel, ProcessJobModel) ProcessManager" where
  "IdentityResolver =
    \<lparr>pm_load = (\<lambda>w. (Fulfilled (), w)),
     pm_createProcess = resolveProcess,
     pm_createJob = resolveJob\<rparr>"

text \<open>Modelled from the spec: the cache store and the logger (the class \<open>Machine\<close>, missing
  here), for the machine of a given name. "Durable storage of cache records scoped by
  (process, job, machine, key)"; the machine "partitions the cache so two machines never
  see each other's entries"; \<open>insert\<close> returns the new record, whose id is "unique,
  storage-assigned, monotonic"; \<open>fetchAll\<close> returns an "ordered sequence", here the order
  of insertion; records are never updated or deleted. A new row holds the table's default
  for the two timestamp columns. Each method reads the id of the process and of the job it
  is given; on null that read throws, and the promise is rejected.\<close>

definition scoped :: "string \<Rightarrow> ProcessModel \<Rightarrow> ProcessJobModel \<Rightarrow> ProcessCache \<Rightarrow> bool" where
  "scoped machineName p j r =
    (pc_process r = p_id p \<and> pc_job r = j_id j \<and> pc_machine r = machineName)"

definition CacheStore_insert ::
  "string \<Rightarrow> ProcessModel option \<Rightarrow> ProcessJobModel option \<Rightarrow> string \<Rightarrow> string \<Rightarrow> database
     \<Rightarrow> ProcessCache outcome \<times> database" where
  "CacheStore_insert machineName p j key value w =
    (case p of
       None \<Rightarrow> (Rejected TypeError, w)
     | Some p' \<Rightarrow>
        (case j of
           None \<Rightarrow> (Rejected TypeError, w)
         | Some j' \<Rightarrow>
            (let r = \<lparr>pc_id = int (length (cache w)) + 1, pc_process = p_id p',
                      pc_job = j_id j', pc_machine = machineName, pc_key = key,
                      pc_value = value, pc_createdAt = 0, pc_updatedAt = 0\<rparr>
             in (Fulfilled r, w\<lparr>cache := cache w @ [r]\<rparr>))))"

definition CacheStore_select ::
  "string \<Rightarrow> (ProcessCache \<Rightarrow> bool) \<Rightarrow> ProcessModel option \<Rightarrow> ProcessJobModel option \<Rightarrow> database
     \<Rightarrow> ProcessCache list outcome \<times> database" where
  "CacheStore_select machineName cond p j w =
    (case p of
       None \<Rightarrow> (Rejected TypeError, w)
     | Some p' \<Rightarrow>
        (case j of
           None \<Rightarrow> (Rejected TypeError, w)
         | Some j' \<Rightarrow>
            (Fulfilled (filter (\<lambda>r. scoped machineName p' j' r \<and> cond r) (cache w)), w)))"

definition nonempty :: "'a list outcome \<times> 'w \<Rightarrow> bool outcome \<times> 'w" where
  "nonempty res =
    (case res of
       (Fulfilled rs, w) \<Rightarrow> (Fulfilled (rs \<noteq> []), w)
     | (Rejected e, w) \<Rightarrow> (Rejected e, w)
     | (Pending, w) \<Rightarrow> (Pending, w)
     | (Thrown e, w) \<Rightarrow> (Thrown e, w))"

definition Logger_append ::
  "string \<Rightarrow> ProcessModel option \<Rightarrow> ProcessJobModel option \<Rightarrow> string \<Rightarrow> ProcessLogTypes
     \<Rightarrow> database \<Rightarrow> ProcessJobLogModel outcome \<times> database" where
  "Logger_append machineName p j message logType w =
    (case p of
       None \<Rightarrow> (Rejected TypeError, w)
     | Some p' \<Rightarrow>
        (case j of
           None \<Rightarrow> (Rejected TypeError, w)
         | Some j' \<Rightarrow>
            (let l = \<lparr>l_id = int (length (logs w)) + 1, l_process = p_id p', l_job = j_id j',
                      l_machine = machineName, l_message = message, l_type = logType\<rparr>
             in (Fulfilled l, w\<lparr>logs := logs w @ [l]\<rparr>))))"

definition CacheStore ::
  "string \<Rightarrow> (database, ProcessModel, ProcessJobModel, ProcessJobLogModel) Machine" where
  "CacheStore machineName =
    \<lparr>m_load = (\<lambda>w. (Fulfilled (), w)),
     m_createLog = Logger_append machineName,
     m_createCache = CacheStore_insert machineName,
     m_getCache = (\<lambda>p j key. CacheStore_select machineName (\<lambda>r. pc_key r = key) p j),
     m_hasCacheKey =
       (\<lambda>p j key w. nonempty (CacheStore_select machineName (\<lambda>r. pc_key r = key) p j w)),
     m_hasCache = (\<lambda>p j w. nonempty (CacheStore_select machineName (\<lambda>r. True) p j w)),
     m_getFullCache = CacheStore_select machineName (\<lambda>r. True)\<rparr>"

text \<open>Collaborators whose storage is out of reach: the job cannot be resolved, or the
  insert fails.\<close>

definition unavailable :: "'w \<Rightarrow> 'a outcome \<times> 'w" where
  "unavailable w = (Rejected (CollaboratorError ''storage unavailable''), w)"

definition IdentityResolver_without_jobs ::
  "(database, ProcessModel, ProcessJobModel) ProcessManager" where
  "IdentityResolver_without_jobs = IdentityResolver\<lparr>pm_createJob := (\<lambda>p name. unavailable)\<rparr>"

definition CacheStore_readonly ::
  "string \<Rightarrow> (database, ProcessModel, ProcessJobModel, ProcessJobLogModel) Machine" where
  "CacheStore_readonly machineName =
     (CacheStore machineName)\<lparr>m_createCache := (\<lambda>p j key value. unavailable)\<rparr>"

text \<open>A machine whose \<open>createCache\<close> throws instead of returning a promise.\<close>

definition CacheStore_throwing ::
  "string \<Rightarrow> (database, ProcessModel, ProcessJobModel, ProcessJobLogModel) Machine" where
  "CacheStore_throwing machineName =
     (CacheStore machineName)
       \<lparr>m_createCache :=
          (\<lambda>p j key value w. (Thrown (CollaboratorError ''storage unavailable''), w))\<rparr>"

text \<open>A stand-in for the machine, of the kind a test of \<open>Job\<close> would put in its place: it
  answers every call without reading the process and the job it is handed. Nothing is
  stored; an insert answers with a record of id 1 whose process and job are 0, the
  table's default.\<close>

definition Machine_double ::
  "(database, ProcessModel, ProcessJobModel, ProcessJobLogModel) Machine" where
  "Machine_double =
    \<lparr>m_load = (\<lambda>w. (Fulfilled (), w)),
     m_createLog =
       (\<lambda>p j message logType w.
          (Fulfilled \<lparr>l_id = 1, l_process = 0, l_job = 0, l_machine = ''ci-1'',
                      l_message = message, l_type = logType\<rparr>, w)),
     m_createCache =
       (\<lambda>p j key value w.
          (Fulfilled \<lparr>pc_id = 1, pc_process = 0, pc_job = 0, pc_machine = ''ci-1'',
                      pc_key = key, pc_value = value, pc_createdAt = 0, pc_updatedAt = 0\<rparr>, w)),
     m_getCache = (\<lambda>p j key w. (Fulfilled [], w)),
     m_hasCacheKey = (\<lambda>p j key w. (Fulfilled False, w)),
     m_hasCache = (\<lambda>p j w. (Fulfilled False, w)),
     m_getFullCache = (\<lambda>p j w. (Fulfilled [], w))\<rparr>"

text \<open>A concrete job whose hooks do nothing, and a fresh instance of it: process "build",
  job "compile", on an empty database.\<close>

definition idle_hooks :: "('w, 'p, 'j) hooks" where
  "idle_hooks =
    \<lparr>onCacheExist = (\<lambda>j w. (Fulfilled (), j, w)),
     onCacheEmpty = (\<lambda>j w. (Fulfilled (), j, w))\<rparr>"

definition fresh :: "string \<Rightarrow> string \<Rightarrow> 'w \<Rightarrow> ('w, 'p, 'j) ctx" where
  "fresh processName' jobName' w =
    \<lparr>self = constructor processName' jobName', world = w, calls = []\<rparr>"

definition build_compile :: "(database, ProcessModel, ProcessJobModel) ctx" where
  "build_compile = fresh ''build'' ''compile'' empty_database"

section \<open>Notions the statements use\<close>

definition fulfilled :: "'a outcome \<Rightarrow> bool" where
  "fulfilled r =
    (case r of Fulfilled v \<Rightarrow> True | Rejected e \<Rightarrow> False | Pending \<Rightarrow> False
     | Thrown e \<Rightarrow> False)"

text \<open>The calls made between two states of one job.\<close>

definition calls_since :: "('w, 'p, 'j) ctx \<Rightarrow> ('w, 'p, 'j) ctx \<Rightarrow> call list" where
  "calls_since s s' = drop (length (calls s)) (calls s')"

definition is_hook :: "call \<Rightarrow> bool" where
  "is_hook c = (c = OnCacheExist \<or> c = OnCacheEmpty)"

definition is_createProcess :: "call \<Rightarrow> bool" where
  "is_createProcess c = (case c of CreateProcess n \<Rightarrow> True | _ \<Rightarrow> False)"

definition is_createJob :: "call \<Rightarrow> bool" where
  "is_createJob c = (case c of CreateJob n \<Rightarrow> True | _ \<Rightarrow> False)"

text \<open>How \<open>load\<close> ends once a hook has returned \<open>(r, j, w)\<close>, \<open>cs\<close> being the calls made up
  to and with the hook: the flag is set and the promise resolved if the hook's promise is
  fulfilled; otherwise the body has stopped at the \<open>await\<close>.\<close>

definition after_hook ::
  "unit outcome \<times> ('p, 'j) Job \<times> 'w \<Rightarrow> call list \<Rightarrow> unit outcome \<times> ('w, 'p, 'j) ctx" where
  "after_hook res cs =
    (case res of
       (r, j, w) \<Rightarrow>
         if fulfilled r
         then (Fulfilled (), \<lparr>self = j\<lparr>loaded := True\<rparr>, world = w, calls = cs\<rparr>)
         else (Pending, \<lparr>self = j, world = w, calls = cs\<rparr>))"

text \<open>The methods of a job as operations, and a job taken through a list of them whatever
  their promises come to.\<close>

datatype operation =
    Load
  | SyncCache
  | CreateLog string ProcessLogTypes
  | CreateCache string string
  | GetCache string
  | HasCacheKey string
  | HasCache
  | GetFullCache

fun apply_operation ::
  "('w, 'p, 'j) ProcessManager \<Rightarrow> ('w, 'p, 'j, 'l) Machine \<Rightarrow> ('w, 'p, 'j) hooks
     \<Rightarrow> ('w, 'p, 'j) ctx \<Rightarrow> operation \<Rightarrow> ('w, 'p, 'j) ctx" where
  "apply_operation PM M H s Load = snd (load PM M H s)"
| "apply_operation PM M H s SyncCache = snd (syncCache M s)"
| "apply_operation PM M H s (CreateLog message logType) = snd (createLog M message logType s)"
| "apply_operation PM M H s (CreateCache key value) = snd (createCache M key value s)"
| "apply_operation PM M H s (GetCache key) = snd (getCache M key s)"
| "apply_operation PM M H s (HasCacheKey key) = snd (hasCacheKey M key s)"
| "apply_operation PM M H s HasCache = snd (hasCache M s)"
| "apply_operation PM M H s GetFullCache = snd (getFullCache M s)"

definition apply_operations ::
  "('w, 'p, 'j) ProcessManager \<Rightarrow> ('w, 'p, 'j, 'l) Machine \<Rightarrow> ('w, 'p, 'j) hooks
     \<Rightarrow> operation list \<Rightarrow> ('w, 'p, 'j) ctx \<Rightarrow> ('w, 'p, 'j) ctx" where
  "apply_operations PM M H ops s = foldl (apply_operation PM M H) s ops"

text \<open>A hook that sets neither identity back to null.\<close>

definition keeps_identities ::
  "(('p, 'j) Job \<Rightarrow> 'w \<Rightarrow> unit outcome \<times> ('p, 'j) Job \<times> 'w) \<Rightarrow> bool" where
  "keeps_identities h =
    (\<forall>j w. (process j \<noteq> None \<longrightarrow> process (fst (snd (h j w))) \<noteq> None) \<and>
           (processJob j \<noteq> None \<longrightarrow> processJob (fst (snd (h j w))) \<noteq> None))"

text \<open>The job with its \<open>loaded\<close> flag set to \<open>b\<close>, all else as it is.\<close>

definition with_loaded :: "bool \<Rightarrow> ('w, 'p, 'j) ctx \<Rightarrow> ('w, 'p, 'j) ctx" where
  "with_loaded b s = s\<lparr>self := (self s)\<lparr>loaded := b\<rparr>\<rparr>"

text \<open>The invariant of the flag: a loaded job has both identities.\<close>

definition resolved_when_loaded :: "('w, 'p, 'j) ctx \<Rightarrow> bool" where
  "resolved_when_loaded s =
    (loaded (self s) \<longrightarrow> process (self s) \<noteq> None \<and> processJob (self s) \<noteq> None)"

text \<open>
  The index that the spec describes, as a function of the records it is extended by, in
  their order: each record goes to the end of the sequence of its key, and under its id
  (a later record of the same id replaces an earlier one). A key is ordinary when it does
  not name a property of \<open>Object.prototype\<close>.
\<close>

definition bucket :: "(string \<rightharpoonup> ProcessCache list) \<Rightarrow> string \<Rightarrow> ProcessCache list" where
  "bucket tree k = (case tree k of None \<Rightarrow> [] | Some b \<Rightarrow> b)"

definition extend_tree ::
  "(string \<rightharpoonup> ProcessCache list) \<Rightarrow> ProcessCache list \<Rightarrow> (string \<rightharpoonup> ProcessCache list)" where
  "extend_tree tree rs =
    (\<lambda>k. if filter (\<lambda>r. pc_key r = k) rs = [] then tree k
         else Some (bucket tree k @ filter (\<lambda>r. pc_key r = k) rs))"

definition extend_results ::
  "(int \<rightharpoonup> ProcessCache) \<Rightarrow> ProcessCache list \<Rightarrow> (int \<rightharpoonup> ProcessCache)" where
  "extend_results m rs = m ++ map_of (rev (map (\<lambda>r. (pc_id r, r)) rs))"

definition ordinary :: "string \<Rightarrow> bool" where
  "ordinary k = (k \<notin> set Object_prototype_properties)"

text \<open>Concrete data: the process "build" and its job "compile", cache records of that
  job on the machine "ci-1", databases that hold them, and a loaded instance.\<close>

definition build :: ProcessModel where
  "build = \<lparr>p_id = 1, p_name = ''build''\<rparr>"

definition compile :: ProcessJobModel where
  "compile = \<lparr>j_id = 1, j_process = 1, j_name = ''compile''\<rparr>"

definition cached :: "int \<Rightarrow> string \<Rightarrow> string \<Rightarrow> ProcessCache" where
  "cached n key v =
    \<lparr>pc_id = n, pc_process = 1, pc_job = 1, pc_machine = ''ci-1'', pc_key = key,
     pc_value = v, pc_createdAt = 0, pc_updatedAt = 0\<rparr>"

definition database_with :: "ProcessCache list \<Rightarrow> database" where
  "database_with rs = \<lparr>processes = [build], jobs = [compile], cache = rs, logs = []\<rparr>"

definition warm_database :: database where
  "warm_database = database_with [cached 1 ''artifact-hash'' ''abc123'']"

definition constructor_key_database :: database where
  "constructor_key_database =
     database_with
       [cached 1 ''artifact-hash'' ''abc123'', cached 2 ''constructor'' ''x'',
        cached 3 ''artifact-hash'' ''def456'']"

definition toString_key_database :: database where
  "toString_key_database = database_with [cached 1 ''toString'' ''x'']"

definition loaded_build_compile :: "database \<Rightarrow> (database, ProcessModel, ProcessJobModel) ctx" where
  "loaded_build_compile w =
    \<lparr>self = (constructor ''build'' ''compile'')
              \<lparr>process := Some build, processJob := Some compile, loaded := True\<rparr>,
     world = w, calls = []\<rparr>"

definition insert_given :: "string \<rightharpoonup> column_value" where
  "insert_given =
    [''process'' \<mapsto> IntVal 1, ''job'' \<mapsto> IntVal 1, ''machine'' \<mapsto> StrVal ''ci-1'',
     ''key'' \<mapsto> StrVal ''artifact-hash'', ''value'' \<mapsto> StrVal ''abc123'']"

text \<open>The instance "build"/"compile" after its first \<open>load\<close> on the empty database.\<close>

definition first_load :: "(database, ProcessModel, ProcessJobModel) ctx" where
  "first_load =
    (loaded_build_compile (database_with []))
      \<lparr>calls := [ProcessManager_load, Machine_load, CreateProcess ''build'',
                 CreateJob ''compile'', Machine_hasCache, OnCacheEmpty]\<rparr>"

text \<open>The database once the process "build" has been created in it, and no job yet.\<close>

definition database_with_process :: database where
  "database_with_process = \<lparr>processes = [build], jobs = [], cache = [], logs = []\<rparr>"

section \<open>Lemmas on promises, calls and frames\<close>

lemmas eval_defs =
  load_def new_Promise_async_def load_body_def load_branch_def await_def
  collaborator_def hasCache_def hook_def set_process_def set_processJob_def set_loaded_def
  syncCache_def getFullCache_def createCache_def createLog_def getCache_def hasCacheKey_def
  push_cacheTree_def get_property_def Object_prototype_properties_def
  IdentityResolver_def resolveProcess_def resolveJob_def CacheStore_def CacheStore_insert_def
  CacheStore_select_def nonempty_def Logger_append_def scoped_def unavailable_def
  idle_hooks_def fresh_def build_compile_def constructor_def empty_database_def
  warm_database_def database_with_def cached_def build_def compile_def
  loaded_build_compile_def Let_def

lemma ctx_literal:
  "(s::('w, 'p, 'j) ctx)\<lparr>self := a, world := b, calls := c\<rparr> = \<lparr>self = a, world = b, calls = c\<rparr>"
  by (cases s) simp

lemma await_cases:
  assumes "await m f s = (r, s')"
  obtains (ok) a s1 where "m s = (Fulfilled a, s1)" and "f a s1 = (r, s')"
  | (stop) "\<not> fulfilled r" and "\<not> fulfilled (fst (m s))" and "snd (m s) = s'"
  using assms
  by (auto simp: await_def fulfilled_def split: prod.splits outcome.splits)

lemma collaborator_result:
  "collaborator c f s = (r, s') \<Longrightarrow>
     self s' = self s \<and> calls s' = calls s @ [c] \<and> f (world s) = (r, world s')"
  by (auto simp: collaborator_def split: prod.splits)

lemma hook_result:
  "hook c h s = (r, s') \<Longrightarrow>
     calls s' = calls s @ [c] \<and> h (self s) (world s) = (r, self s', world s')"
  by (auto simp: hook_def split: prod.splits)

lemma hasCache_result:
  "hasCache M s = (r, s') \<Longrightarrow> self s' = self s \<and> calls s' = calls s @ [Machine_hasCache]"
  by (auto simp: hasCache_def dest!: collaborator_result)

lemma set_loaded_result:
  "set_loaded s = (r, s') \<Longrightarrow>
     r = Fulfilled () \<and> loaded (self s') \<and> calls s' = calls s \<and>
     process (self s') = process (self s) \<and> processJob (self s') = processJob (self s)"
  by (auto simp: set_loaded_def)

lemma syncCache_calls:
  "syncCache M s = (r, s') \<Longrightarrow> calls s' = calls s @ [Machine_getFullCache]"
  by (auto simp: syncCache_def new_Promise_async_def await_def getFullCache_def collaborator_def
      split: prod.splits outcome.splits)

lemma syncCache_not_rejected: "syncCache M s \<noteq> (Rejected e, s')"
  by (auto simp: syncCache_def new_Promise_async_def split: prod.splits outcome.splits)

lemma syncCache_loop_frame:
  "syncCache_loop rs j = (r, j') \<Longrightarrow>
     process j' = process j \<and> processJob j' = processJob j \<and> loaded j' = loaded j \<and>
     processName j' = processName j \<and> jobName j' = jobName j"
  by (induction rs arbitrary: j) (auto split: sum.splits)

lemma syncCache_frame:
  "syncCache M s = (r, s') \<Longrightarrow>
     process (self s') = process (self s) \<and> processJob (self s') = processJob (self s) \<and>
     loaded (self s') = loaded (self s) \<and> processName (self s') = processName (self s) \<and>
     jobName (self s') = jobName (self s)"
  by (auto simp: syncCache_def new_Promise_async_def await_def getFullCache_def collaborator_def
      split: prod.splits outcome.splits dest!: syncCache_loop_frame)

lemma createCache_frame:
  "process (self (snd (createCache M key v s))) = process (self s) \<and>
   processJob (self (snd (createCache M key v s))) = processJob (self s) \<and>
   loaded (self (snd (createCache M key v s))) = loaded (self s)"
  by (auto simp: createCache_def collaborator_def Let_def
      split: prod.splits outcome.splits sum.splits)

lemma wrappers_frame:
  "self (snd (createLog M message logType s)) = self s"
  "self (snd (getCache M key s)) = self s"
  "self (snd (hasCacheKey M key s)) = self s"
  "self (snd (hasCache M s)) = self s"
  "self (snd (getFullCache M s)) = self s"
  by (auto simp: createLog_def getCache_def hasCacheKey_def hasCache_def getFullCache_def
       collaborator_def split: prod.splits)

lemma hook_keeps:
  assumes "keeps_identities h"
    and "process (self t) \<noteq> None" and "processJob (self t) \<noteq> None"
  shows "process (self (snd (hook c h t))) \<noteq> None \<and> processJob (self (snd (hook c h t))) \<noteq> None"
proof -
  from hook_result[OF surjective_pairing, of c h t]
  have "fst (snd (h (self t) (world t))) = self (snd (hook c h t))" by simp
  with assms show ?thesis unfolding keeps_identities_def by metis
qed

subsection \<open>The two halves of load\<close>

text \<open>Where the branch part of \<open>load\<close> can end: resolved after exactly one hook; stopped at
  a hook that did not fulfil; or stopped before any hook, the flag untouched.\<close>

lemma load_branch_result:
  assumes "load_branch M H s = (r, s')"
  shows "(r = Fulfilled () \<and> loaded (self s') \<and>
           (calls s' = calls s @ [Machine_hasCache, OnCacheEmpty] \<or>
            calls s' = calls s @ [Machine_hasCache, Machine_getFullCache, OnCacheExist])) \<or>
         (\<not> fulfilled r \<and>
           (calls s' = calls s @ [Machine_hasCache, OnCacheEmpty] \<or>
            calls s' = calls s @ [Machine_hasCache, Machine_getFullCache, OnCacheExist])) \<or>
         (\<not> fulfilled r \<and> loaded (self s') = loaded (self s) \<and>
            processName (self s') = processName (self s) \<and> jobName (self s') = jobName (self s) \<and>
           (calls s' = calls s @ [Machine_hasCache] \<or>
            calls s' = calls s @ [Machine_hasCache, Machine_getFullCache]))"
  using assms[unfolded load_branch_def]
proof (cases rule: await_cases)
  case stop
  then show ?thesis using hasCache_result[OF surjective_pairing, of M s] by auto
next
  case (ok b s1)
  note h = hasCache_result[OF ok(1)]
  show ?thesis
  proof (cases b)
    case False
    with ok(2) have "await (hook OnCacheEmpty (onCacheEmpty H)) (\<lambda>_. set_loaded) s1 = (r, s')"
      by simp
    then show ?thesis
    proof (cases rule: await_cases)
      case stop
      then show ?thesis
        using h hook_result[OF surjective_pairing, of OnCacheEmpty "onCacheEmpty H" s1] by auto
    next
      case (ok u s2)
      then show ?thesis using h by (auto dest!: hook_result set_loaded_result)
    qed
  next
    case True
    with ok(2) have "await (syncCache M)
      (\<lambda>_. await (hook OnCacheExist (onCacheExist H)) (\<lambda>_. set_loaded)) s1 = (r, s')"
      by simp
    then show ?thesis
    proof (cases rule: await_cases)
      case stop
      then show ?thesis
        using h syncCache_calls[OF surjective_pairing, of M s1]
          syncCache_frame[OF surjective_pairing, of M s1] by auto
    next
      case (ok u s2)
      note sc = syncCache_calls[OF ok(1)]
      from ok(2) show ?thesis
      proof (cases rule: await_cases)
        case stop
        then show ?thesis
          using h sc hook_result[OF surjective_pairing, of OnCacheExist "onCacheExist H" s2]
          by auto
      next
        case (ok u s3)
        then show ?thesis using h sc by (auto dest!: hook_result set_loaded_result)
      qed
    qed
  qed
qed

lemma load_branch_identities:
  assumes "load_branch M H s = (r, s')"
    and "keeps_identities (onCacheExist H)" and "keeps_identities (onCacheEmpty H)"
    and "process (self s) \<noteq> None" and "processJob (self s) \<noteq> None"
  shows "process (self s') \<noteq> None \<and> processJob (self s') \<noteq> None"
  using assms(1)[unfolded load_branch_def]
proof (cases rule: await_cases)
  case stop
  then show ?thesis using hasCache_result[OF surjective_pairing, of M s] assms(4,5) by auto
next
  case (ok b s1)
  note h = hasCache_result[OF ok(1)]
  note hookM = hook_keeps[OF assms(3)]
  note hookE = hook_keeps[OF assms(2)]
  from h assms(4,5) have s1: "process (self s1) \<noteq> None" "processJob (self s1) \<noteq> None"
    by simp_all
  show ?thesis
  proof (cases b)
    case False
    with ok(2) have "await (hook OnCacheEmpty (onCacheEmpty H)) (\<lambda>_. set_loaded) s1 = (r, s')"
      by simp
    then show ?thesis
    proof (cases rule: await_cases)
      case stop
      then show ?thesis using hookM[OF s1, of OnCacheEmpty] by auto
    next
      case (ok u s2)
      then show ?thesis using hookM[OF s1, of OnCacheEmpty] by (auto dest!: set_loaded_result)
    qed
  next
    case True
    with ok(2) have "await (syncCache M)
      (\<lambda>_. await (hook OnCacheExist (onCacheExist H)) (\<lambda>_. set_loaded)) s1 = (r, s')"
      by simp
    then show ?thesis
    proof (cases rule: await_cases)
      case stop
      then show ?thesis using s1 syncCache_frame[OF surjective_pairing, of M s1] by auto
    next
      case (ok u s2)
      from syncCache_frame[OF ok(1)] s1
      have s2: "process (self s2) \<noteq> None" "processJob (self s2) \<noteq> None" by simp_all
      from ok(2) show ?thesis
      proof (cases rule: await_cases)
        case stop
        then show ?thesis using hookE[OF s2, of OnCacheExist] by auto
      next
        case (ok u s3)
        then show ?thesis using hookE[OF s2, of OnCacheExist] by (auto dest!: set_loaded_result)
      qed
    qed
  qed
qed

text \<open>Where the body of \<open>load\<close> can end: stopped at one of the four calls that come before
  the existence check, or in the branch part, entered with both identities assigned.\<close>

lemma load_body_result:
  assumes "load_body PM M H s = (r, s')"
  obtains (early) "\<not> fulfilled r"
      and "self s' = self s \<or> (\<exists>p. self s' = (self s)\<lparr>process := Some p\<rparr>)"
      and "filter is_hook (calls_since s s') = []"
  | (branch) p pj t where "self t = (self s)\<lparr>process := Some p, processJob := Some pj\<rparr>"
      and "calls t = calls s @ [ProcessManager_load, Machine_load,
             CreateProcess (processName (self s)), CreateJob (jobName (self s))]"
      and "load_branch M H t = (r, s')"
  using assms[unfolded load_body_def]
proof (cases rule: await_cases)
  case stop
  then show ?thesis
    using collaborator_result[OF surjective_pairing, of ProcessManager_load "pm_load PM" s]
    by (intro early) (auto simp: calls_since_def is_hook_def)
next
  case (ok u1 s1)
  note c1 = collaborator_result[OF ok(1)]
  from ok(2) show ?thesis
  proof (cases rule: await_cases)
    case stop
    then show ?thesis
      using c1 collaborator_result[OF surjective_pairing, of Machine_load "m_load M" s1]
      by (intro early) (auto simp: calls_since_def is_hook_def)
  next
    case (ok u2 s2)
    note c2 = collaborator_result[OF ok(1)]
    from ok(2) show ?thesis
    proof (cases rule: await_cases)
      case stop
      then show ?thesis
        using c1 c2
          collaborator_result[OF surjective_pairing, of "CreateProcess (processName (self s2))"
            "pm_createProcess PM (processName (self s2))" s2]
        by (intro early) (auto simp: calls_since_def is_hook_def)
    next
      case (ok p s3)
      note c3 = collaborator_result[OF ok(1)]
      from ok(2) show ?thesis
      proof (cases rule: await_cases)
        case stop
        then show ?thesis
          using c1 c2 c3
            collaborator_result[OF surjective_pairing, of "CreateJob (jobName (self s3))"
              "pm_createJob PM p (jobName (self s3))" "set_process p s3"]
          by (intro early) (auto simp: calls_since_def is_hook_def set_process_def)
      next
        case (ok pj s4)
        note c4 = collaborator_result[OF ok(1)]
        show ?thesis
        proof (rule branch[where t = "set_processJob pj s4" and p = p and pj = pj])
          show "self (set_processJob pj s4) =
              (self s)\<lparr>process := Some p, processJob := Some pj\<rparr>"
            using c1 c2 c3 c4 by (simp add: set_processJob_def set_process_def)
          show "calls (set_processJob pj s4) = calls s @ [ProcessManager_load, Machine_load,
             CreateProcess (processName (self s)), CreateJob (jobName (self s))]"
            using c1 c2 c3 c4 by (simp add: set_processJob_def set_process_def)
          show "load_branch M H (set_processJob pj s4) = (r, s')" by (rule ok(2))
        qed
      qed
    qed
  qed
qed

lemma load_unloaded:
  assumes "\<not> loaded (self s)" and "load PM M H s = (r, s')"
  obtains r0 where "load_body PM M H s = (r0, s')" and "fulfilled r0 \<Longrightarrow> r = Fulfilled ()"
    and "\<not> fulfilled r0 \<Longrightarrow> r = Pending"
  using assms
  by (cases "load_body PM M H s")
     (auto simp: load_def new_Promise_async_def fulfilled_def split: outcome.splits)

lemma load_identities:
  assumes "keeps_identities (onCacheExist H)" and "keeps_identities (onCacheEmpty H)"
  shows "(process (self s) \<noteq> None \<longrightarrow> process (self (snd (load PM M H s))) \<noteq> None) \<and>
         (processJob (self s) \<noteq> None \<longrightarrow> processJob (self (snd (load PM M H s))) \<noteq> None) \<and>
         (resolved_when_loaded s \<longrightarrow> resolved_when_loaded (snd (load PM M H s)))"
proof (cases "loaded (self s)")
  case True
  then show ?thesis by (simp add: load_def)
next
  case False
  obtain r s' where l: "load PM M H s = (r, s')" by (cases "load PM M H s")
  from False l obtain r0 where b: "load_body PM M H s = (r0, s')"
    by (auto elim!: load_unloaded)
  from b have "(process (self s) \<noteq> None \<longrightarrow> process (self s') \<noteq> None) \<and>
         (processJob (self s) \<noteq> None \<longrightarrow> processJob (self s') \<noteq> None) \<and>
         (loaded (self s') \<longrightarrow> process (self s') \<noteq> None \<and> processJob (self s') \<noteq> None)"
  proof (cases rule: load_body_result)
    case early
    with False show ?thesis by auto
  next
    case (branch p pj t)
    from load_branch_identities[OF branch(3) assms] branch(1) show ?thesis by simp
  qed
  with l show ?thesis by (simp add: resolved_when_loaded_def)
qed

lemma apply_operation_identities:
  assumes "keeps_identities (onCacheExist H)" and "keeps_identities (onCacheEmpty H)"
  shows "(process (self s) \<noteq> None \<longrightarrow> process (self (apply_operation PM M H s op)) \<noteq> None) \<and>
         (processJob (self s) \<noteq> None \<longrightarrow>
            processJob (self (apply_operation PM M H s op)) \<noteq> None) \<and>
         (resolved_when_loaded s \<longrightarrow> resolved_when_loaded (apply_operation PM M H s op))"
proof (cases op)
  case Load
  then show ?thesis using load_identities[OF assms, of s PM M] by simp
next
  case SyncCache
  then show ?thesis
    using syncCache_frame[OF surjective_pairing, of M s] by (simp add: resolved_when_loaded_def)
next
  case (CreateCache key v)
  then show ?thesis using createCache_frame[of M key v s] by (simp add: resolved_when_loaded_def)
qed (simp_all add: wrappers_frame resolved_when_loaded_def)

lemma apply_operations_invariant:
  assumes "keeps_identities (onCacheExist H)" and "keeps_identities (onCacheEmpty H)"
  shows "resolved_when_loaded s \<Longrightarrow> resolved_when_loaded (apply_operations PM M H ops s)"
  unfolding apply_operations_def
  by (induction ops arbitrary: s) (simp_all add: apply_operation_identities[OF assms])

subsection \<open>The index under ordinary keys\<close>

lemma push_cacheTree_ordinary:
  "ordinary (pc_key r) \<Longrightarrow>
     push_cacheTree tree r = Inr (tree(pc_key r \<mapsto> bucket tree (pc_key r) @ [r]))"
  by (auto simp: push_cacheTree_def get_property_def ordinary_def bucket_def Let_def
      split: option.splits)

lemma push_cacheTree_inherited:
  "\<not> ordinary (pc_key r) \<Longrightarrow> tree (pc_key r) = None \<Longrightarrow> push_cacheTree tree r = Inl TypeError"
  by (auto simp: push_cacheTree_def get_property_def ordinary_def Let_def)

lemma extend_tree_Cons:
  "extend_tree (tree(pc_key r \<mapsto> bucket tree (pc_key r) @ [r])) rs = extend_tree tree (r # rs)"
  by (rule ext) (auto simp: extend_tree_def bucket_def)

lemma extend_results_Cons:
  "extend_results (m(pc_id r \<mapsto> r)) rs = extend_results m (r # rs)"
  by (simp add: extend_results_def map_add_def fun_eq_iff map_of_append split: option.splits)

lemma extend_tree_single:
  "extend_tree tree [r] = tree(pc_key r \<mapsto> bucket tree (pc_key r) @ [r])"
  by (rule ext) (simp add: extend_tree_def)

lemma extend_results_single: "extend_results m [r] = m(pc_id r \<mapsto> r)"
  by (simp add: extend_results_def)

lemma extend_tree_append:
  "extend_tree (extend_tree tree rs) rs' = extend_tree tree (rs @ rs')"
  by (rule ext) (auto simp: extend_tree_def bucket_def)

lemma extend_results_append:
  "extend_results (extend_results m rs) rs' = extend_results m (rs @ rs')"
  by (simp add: extend_results_def)

lemma syncCache_loop_ordinary:
  "\<forall>r \<in> set rs. ordinary (pc_key r) \<Longrightarrow>
     syncCache_loop rs j =
       (Fulfilled (), j\<lparr>cacheTree := extend_tree (cacheTree j) rs,
                        cacheResults := extend_results (cacheResults j) rs\<rparr>)"
proof (induction rs arbitrary: j)
  case Nil
  then show ?case by (simp add: extend_tree_def extend_results_def)
next
  case (Cons r rs)
  then show ?case
    by (simp add: push_cacheTree_ordinary extend_tree_Cons extend_results_Cons)
qed

text \<open>Over records with ordinary keys \<open>syncCache\<close> does what the spec says of it: both maps
  are cleared, and the fetched records are indexed in the order returned.\<close>

lemma syncCache_ordinary:
  assumes "m_getFullCache M (process (self s)) (processJob (self s)) (world s) = (Fulfilled rs, w)"
    and "\<forall>r \<in> set rs. ordinary (pc_key r)"
  shows "syncCache M s =
    (Fulfilled (),
     s\<lparr>self := (self s)\<lparr>cacheResults := extend_results Map.empty rs,
                          cacheTree := extend_tree Map.empty rs\<rparr>,
       world := w, calls := calls s @ [Machine_getFullCache]\<rparr>)"
  using assms
  by (simp add: syncCache_def new_Promise_async_def await_def getFullCache_def collaborator_def
      syncCache_loop_ordinary)

text \<open>With an ordinary key \<open>createCache\<close> extends the index by the new record and resolves
  with it.\<close>

lemma createCache_ordinary:
  assumes "m_createCache M (process (self s)) (processJob (self s)) key v (world s) =
      (Fulfilled r, w)"
    and "ordinary (pc_key r)"
  shows "createCache M key v s =
    (Fulfilled r,
     s\<lparr>self := (self s)\<lparr>cacheResults := extend_results (cacheResults (self s)) [r],
                          cacheTree := extend_tree (cacheTree (self s)) [r]\<rparr>,
       world := w, calls := calls s @ [Machine_createCache key v]\<rparr>)"
  using assms
  by (simp add: createCache_def collaborator_def push_cacheTree_ordinary Let_def
      extend_tree_single extend_results_single)

subsection \<open>The cache store\<close>

lemma createCache_store:
  assumes "process (self s) = Some p" and "processJob (self s) = Some pj"
  shows "world (snd (createCache (CacheStore n) key v s)) =
     (world s)\<lparr>cache := cache (world s) @
        [\<lparr>pc_id = int (length (cache (world s))) + 1, pc_process = p_id p, pc_job = j_id pj,
          pc_machine = n, pc_key = key, pc_value = v, pc_createdAt = 0, pc_updatedAt = 0\<rparr>]\<rparr> \<and>
     process (self (snd (createCache (CacheStore n) key v s))) = Some p \<and>
     processJob (self (snd (createCache (CacheStore n) key v s))) = Some pj"
  using assms
  by (auto simp: createCache_def collaborator_def CacheStore_def CacheStore_insert_def Let_def
      split: sum.splits)

lemma createCache_store_ordinary:
  assumes "process (self s) = Some p" and "processJob (self s) = Some pj" and "ordinary key"
  shows "fst (createCache (CacheStore n) key v s) =
     Fulfilled \<lparr>pc_id = int (length (cache (world s))) + 1, pc_process = p_id p, pc_job = j_id pj,
          pc_machine = n, pc_key = key, pc_value = v, pc_createdAt = 0, pc_updatedAt = 0\<rparr>"
  using assms
  by (simp add: createCache_def collaborator_def CacheStore_def CacheStore_insert_def Let_def
      push_cacheTree_ordinary)

text \<open>On the cache store, with an ordinary key, an index that is the index of the stored
  records of the job is so again after \<open>createCache\<close>.\<close>

lemma createCache_store_index:
  assumes "process (self s) = Some p" and "processJob (self s) = Some pj" and "ordinary key"
    and "cacheTree (self s) = extend_tree Map.empty (filter (scoped n p pj) (cache (world s)))"
    and "cacheResults (self s) =
           extend_results Map.empty (filter (scoped n p pj) (cache (world s)))"
    and "s' = snd (createCache (CacheStore n) key v s)"
  shows "cacheTree (self s') = extend_tree Map.empty (filter (scoped n p pj) (cache (world s'))) \<and>
     cacheResults (self s') =
       extend_results Map.empty (filter (scoped n p pj) (cache (world s')))"
proof -
  let ?r = "\<lparr>pc_id = int (length (cache (world s))) + 1, pc_process = p_id p, pc_job = j_id pj,
          pc_machine = n, pc_key = key, pc_value = v, pc_createdAt = 0, pc_updatedAt = 0\<rparr>"
  have m: "m_createCache (CacheStore n) (process (self s)) (processJob (self s)) key v (world s) =
      (Fulfilled ?r, (world s)\<lparr>cache := cache (world s) @ [?r]\<rparr>)"
    using assms(1,2) by (simp add: CacheStore_def CacheStore_insert_def Let_def)
  have o: "ordinary (pc_key ?r)" using assms(3) by simp
  have sc: "scoped n p pj ?r" by (simp add: scoped_def)
  show ?thesis
    unfolding assms(6) createCache_ordinary[OF m o]
    using sc by (simp add: assms(4,5) extend_tree_append extend_results_append)
qed

subsection \<open>The table\<close>

lemma stored_column_default:
  "\<not> autoIncrement a \<Longrightarrow> \<not> timestamps opts \<Longrightarrow> defaultValue a = Some d \<Longrightarrow>
     stored_column opts now next_id given (k, a) =
       Inr (Some (case given k of None \<Rightarrow> d | Some v \<Rightarrow> v))"
  by (simp add: stored_column_def split: option.splits)

lemma stored_column_autoIncrement:
  "autoIncrement a \<Longrightarrow>
     stored_column opts now next_id given (k, a) =
       Inr (Some (case given k of None \<Rightarrow> IntVal next_id | Some v \<Rightarrow> v))"
  by (simp add: stored_column_def split: option.splits)

lemma stored_column_given:
  "given k = Some v \<Longrightarrow> stored_column opts now next_id given (k, a) = Inr (Some v)"
  by (simp add: stored_column_def)

section \<open>The load lifecycle\<close>

text \<open>
  What \<open>load()\<close> does from the existence check on. Let the four calls before the check be
  fulfilled, with \<open>p\<close> and \<open>pj\<close> the resolved process and job, and let \<open>machine.hasCache\<close>
  answer \<open>b\<close>. If \<open>b\<close> is false, \<open>onCacheEmpty\<close> is called on the job as it was, but for the
  two identities, and it is the only call after the check. If \<open>b\<close> is true, \<open>syncCache\<close>
  runs, and \<open>onCacheExist\<close> is called only if the promise of \<open>syncCache\<close> is fulfilled.
\<close>

lemma load_existence_branch:
  assumes "loaded (self s) = False"
    and "pm_load PM (world s) = (Fulfilled (), w1)"
    and "m_load M w1 = (Fulfilled (), w2)"
    and "pm_createProcess PM (processName (self s)) w2 = (Fulfilled p, w3)"
    and "pm_createJob PM p (jobName (self s)) w3 = (Fulfilled pj, w4)"
    and "m_hasCache M (Some p) (Some pj) w4 = (Fulfilled b, w5)"
    and "cs = calls s @ [ProcessManager_load, Machine_load, CreateProcess (processName (self s)),
           CreateJob (jobName (self s)), Machine_hasCache]"
    and "resolved = (self s)\<lparr>process := Some p, processJob := Some pj\<rparr>"
  shows "if b
    then (case syncCache M \<lparr>self = resolved, world = w5, calls = cs\<rparr> of
            (r, s6) \<Rightarrow>
              calls s6 = cs @ [Machine_getFullCache] \<and>
              load PM M H s =
                (if fulfilled r
                 then after_hook (onCacheExist H (self s6) (world s6)) (calls s6 @ [OnCacheExist])
                 else (Pending, s6)))
    else load PM M H s = after_hook (onCacheEmpty H resolved w5) (cs @ [OnCacheEmpty])"
proof (cases b)
  case False
  then show ?thesis
    using assms
    by (auto simp: load_def new_Promise_async_def load_body_def load_branch_def await_def
        collaborator_def hasCache_def hook_def set_process_def set_processJob_def
        set_loaded_def after_hook_def fulfilled_def ctx_literal
        split: prod.splits outcome.splits)
next
  case True
  obtain r s6 where sc: "syncCache M \<lparr>self = resolved, world = w5, calls = cs\<rparr> = (r, s6)"
    by (cases "syncCache M \<lparr>self = resolved, world = w5, calls = cs\<rparr>")
  have c: "calls s6 = cs @ [Machine_getFullCache]"
    using syncCache_calls[OF sc] by simp
  have nr: "\<And>e. r \<noteq> Rejected e"
    using syncCache_not_rejected[of M "\<lparr>self = resolved, world = w5, calls = cs\<rparr>" _ s6] sc
    by auto
  have "load PM M H s =
                (if fulfilled r
                 then after_hook (onCacheExist H (self s6) (world s6)) (calls s6 @ [OnCacheExist])
                 else (Pending, s6))"
    using assms True sc nr
    by (auto simp: load_def new_Promise_async_def load_body_def load_branch_def await_def
        collaborator_def hasCache_def hook_def set_process_def set_processJob_def
        set_loaded_def after_hook_def fulfilled_def ctx_literal
        split: prod.splits outcome.splits)
  with c sc True show ?thesis by simp
qed

text \<open>
  When every fetched record has an ordinary key, the sync completes: \<open>onCacheExist\<close> is
  called on the job whose index holds the fetched records, in the order returned, and it is
  the only hook called.
\<close>

lemma load_cache_exists_ordinary:
  assumes "loaded (self s) = False"
    and "pm_load PM (world s) = (Fulfilled (), w1)"
    and "m_load M w1 = (Fulfilled (), w2)"
    and "pm_createProcess PM (processName (self s)) w2 = (Fulfilled p, w3)"
    and "pm_createJob PM p (jobName (self s)) w3 = (Fulfilled pj, w4)"
    and "m_hasCache M (Some p) (Some pj) w4 = (Fulfilled True, w5)"
    and "m_getFullCache M (Some p) (Some pj) w5 = (Fulfilled rs, w6)"
    and "\<forall>r \<in> set rs. ordinary (pc_key r)"
    and "cs = calls s @ [ProcessManager_load, Machine_load, CreateProcess (processName (self s)),
           CreateJob (jobName (self s)), Machine_hasCache]"
    and "resolved = (self s)\<lparr>process := Some p, processJob := Some pj\<rparr>"
  shows "load PM M H s =
     after_hook
       (onCacheExist H
          (resolved\<lparr>cacheResults := extend_results Map.empty rs,
                    cacheTree := extend_tree Map.empty rs\<rparr>) w6)
       (cs @ [Machine_getFullCache, OnCacheExist])"
proof -
  have g: "m_getFullCache M (process (self \<lparr>self = resolved, world = w5, calls = cs\<rparr>))
      (processJob (self \<lparr>self = resolved, world = w5, calls = cs\<rparr>))
      (world \<lparr>self = resolved, world = w5, calls = cs\<rparr>) = (Fulfilled rs, w6)"
    using assms(7,10) by simp
  note sc = syncCache_ordinary[OF g assms(8)]
  from load_existence_branch[OF assms(1-6) assms(9,10), of H]
  show ?thesis by (simp add: sc fulfilled_def)
qed

text \<open>
  Claim C1 does not hold of the code for every stored record. The storage holds one record
  of the job, with the key "toString". \<open>hasCache\<close> answers true and \<open>syncCache\<close> runs, but
  reading \<open>cacheTree["toString"]\<close> finds the function inherited from \<open>Object.prototype\<close> and
  \<open>push\<close> throws (as in C5): the sync does not complete, \<open>onCacheExist\<close> is not called, no
  hook is, the promise of \<open>load()\<close> is never settled, and the job is left unloaded with an
  empty index. (With ordinary keys the branch is as the claim says:
  \<open>load_existence_branch\<close>, \<open>load_cache_exists_ordinary\<close>.)
\<close>

theorem load_toString_key:
  "fst (m_hasCache (CacheStore ''ci-1'') (Some build) (Some compile) toString_key_database) =
     Fulfilled True \<and>
   fst (load IdentityResolver (CacheStore ''ci-1'') idle_hooks
          (fresh ''build'' ''compile'' toString_key_database)) = Pending \<and>
   calls (snd (load IdentityResolver (CacheStore ''ci-1'') idle_hooks
          (fresh ''build'' ''compile'' toString_key_database))) =
     [ProcessManager_load, Machine_load, CreateProcess ''build'', CreateJob ''compile'',
      Machine_hasCache, Machine_getFullCache] \<and>
   loaded (self (snd (load IdentityResolver (CacheStore ''ci-1'') idle_hooks
          (fresh ''build'' ''compile'' toString_key_database)))) = False \<and>
   cacheTree (self (snd (load IdentityResolver (CacheStore ''ci-1'') idle_hooks
          (fresh ''build'' ''compile'' toString_key_database)))) ''toString'' = None \<and>
   cacheResults (self (snd (load IdentityResolver (CacheStore ''ci-1'') idle_hooks
          (fresh ''build'' ''compile'' toString_key_database)))) 1 = None"
  by (simp add: toString_key_database_def eval_defs)

text \<open>
  Claim C2. \<open>load()\<close> is idempotent. When a first \<open>load()\<close> on an unloaded instance has
  resolved, leaving the job in state \<open>s1\<close>, the flag is set and a second \<open>load()\<close> resolves
  at once and leaves \<open>s1\<close> as it is: no field, no stored data and no call is added, so
  there is no identity resolution, no sync and no hook. Over the two calls
  \<open>createProcess\<close>, \<open>createJob\<close> and a hook have each been called exactly once.
\<close>

theorem load_idempotent:
  assumes "loaded (self s) = False" and "load PM M H s = (Fulfilled (), s1)"
  shows "loaded (self s1) \<and> load PM M H s1 = (Fulfilled (), s1) \<and>
     length (filter is_createProcess (calls_since s (snd (load PM M H s1)))) = 1 \<and>
     length (filter is_createJob (calls_since s (snd (load PM M H s1)))) = 1 \<and>
     length (filter is_hook (calls_since s (snd (load PM M H s1)))) = 1"
proof -
  from assms obtain r0 where b: "load_body PM M H s = (r0, s1)" and f: "fulfilled r0"
    by (auto elim!: load_unloaded)
  from b have "loaded (self s1) \<and>
     length (filter is_createProcess (calls_since s s1)) = 1 \<and>
     length (filter is_createJob (calls_since s s1)) = 1 \<and>
     length (filter is_hook (calls_since s s1)) = 1"
  proof (cases rule: load_body_result)
    case early
    with f show ?thesis by simp
  next
    case (branch p pj t)
    from load_branch_result[OF branch(3)] f branch(2) show ?thesis
      by (auto simp: calls_since_def is_createProcess_def is_createJob_def is_hook_def)
  qed
  moreover from this have "load PM M H s1 = (Fulfilled (), s1)"
    by (simp add: load_def)
  ultimately show ?thesis by simp
qed

theorem load_idempotent_witness:
  "loaded (self build_compile) = False \<and>
   load IdentityResolver (CacheStore ''ci-1'') idle_hooks build_compile =
     (Fulfilled (), first_load) \<and>
   loaded (self first_load) \<and>
   load IdentityResolver (CacheStore ''ci-1'') idle_hooks first_load =
     (Fulfilled (), first_load) \<and>
   length (filter is_createProcess (calls_since build_compile
     (snd (load IdentityResolver (CacheStore ''ci-1'') idle_hooks first_load)))) = 1 \<and>
   length (filter is_createJob (calls_since build_compile
     (snd (load IdentityResolver (CacheStore ''ci-1'') idle_hooks first_load)))) = 1 \<and>
   length (filter is_hook (calls_since build_compile
     (snd (load IdentityResolver (CacheStore ''ci-1'') idle_hooks first_load)))) = 1"
proof -
  have h1: "loaded (self build_compile) = False" by (simp add: eval_defs)
  have h2: "load IdentityResolver (CacheStore ''ci-1'') idle_hooks build_compile =
     (Fulfilled (), first_load)"
    by (simp add: eval_defs first_load_def)
  from load_idempotent[OF h1 h2] h1 h2 show ?thesis by blast
qed

text \<open>
  Claim C4, as the code has it. \<open>load()\<close> gives its promise no way to be rejected, and does
  not undo what it has assigned. Whenever a \<open>load()\<close> on an unloaded instance ends without
  having reached a hook (a call to a collaborator before it was rejected or never
  settled, or the sync threw), the promise that \<open>load()\<close> returned is never settled: the
  error does not reach the caller. The flag is still false and the two names are as they
  were, so \<open>load()\<close> can be called again. There is no rollback: when the process has been
  resolved to \<open>p\<close> and the promise of \<open>createJob\<close> is not fulfilled, \<open>process\<close> stays \<open>p\<close>
  while \<open>processJob\<close> is what it was before.
\<close>

theorem load_failure_leaves_unloaded:
  assumes "loaded (self s) = False"
    and "filter is_hook (calls_since s (snd (load PM M H s))) = []"
  shows "fst (load PM M H s) = Pending \<and> loaded (self (snd (load PM M H s))) = False \<and>
     processName (self (snd (load PM M H s))) = processName (self s) \<and>
     jobName (self (snd (load PM M H s))) = jobName (self s) \<and>
     (pm_load PM (world s) = (Fulfilled (), w1) \<and> m_load M w1 = (Fulfilled (), w2) \<and>
      pm_createProcess PM (processName (self s)) w2 = (Fulfilled p, w3) \<and>
      \<not> fulfilled (fst (pm_createJob PM p (jobName (self s)) w3)) \<longrightarrow>
        process (self (snd (load PM M H s))) = Some p \<and>
        processJob (self (snd (load PM M H s))) = processJob (self s))"
proof -
  obtain r s' where l: "load PM M H s = (r, s')" by (cases "load PM M H s")
  from assms(1) l obtain r0 where b: "load_body PM M H s = (r0, s')"
    and nf: "\<not> fulfilled r0 \<Longrightarrow> r = Pending"
    by (auto elim!: load_unloaded)
  from assms(2) l have nh: "filter is_hook (calls_since s s') = []" by simp
  from b have "\<not> fulfilled r0 \<and> loaded (self s') = False \<and>
     processName (self s') = processName (self s) \<and> jobName (self s') = jobName (self s)"
  proof (cases rule: load_body_result)
    case early
    with assms(1) show ?thesis by auto
  next
    case (branch p pj t)
    from load_branch_result[OF branch(3)] nh branch(1,2) assms(1) show ?thesis
      by (auto simp: calls_since_def is_hook_def)
  qed
  with nf l have first: "fst (load PM M H s) = Pending \<and>
     loaded (self (snd (load PM M H s))) = False \<and>
     processName (self (snd (load PM M H s))) = processName (self s) \<and>
     jobName (self (snd (load PM M H s))) = jobName (self s)"
    by simp
  have second: "pm_load PM (world s) = (Fulfilled (), w1) \<and> m_load M w1 = (Fulfilled (), w2) \<and>
      pm_createProcess PM (processName (self s)) w2 = (Fulfilled p, w3) \<and>
      \<not> fulfilled (fst (pm_createJob PM p (jobName (self s)) w3)) \<longrightarrow>
        process (self (snd (load PM M H s))) = Some p \<and>
        processJob (self (snd (load PM M H s))) = processJob (self s)"
    using assms(1)
    by (auto simp: load_def new_Promise_async_def load_body_def await_def collaborator_def
        set_process_def fulfilled_def split: prod.splits outcome.splits)
  from first second show ?thesis by blast
qed

theorem load_failure_leaves_unloaded_witness:
  "loaded (self build_compile) = False \<and>
   filter is_hook (calls_since build_compile
     (snd (load IdentityResolver_without_jobs (CacheStore ''ci-1'') idle_hooks build_compile))) = [] \<and>
   pm_load IdentityResolver_without_jobs (world build_compile) = (Fulfilled (), empty_database) \<and>
   m_load (CacheStore ''ci-1'') empty_database = (Fulfilled (), empty_database) \<and>
   pm_createProcess IdentityResolver_without_jobs (processName (self build_compile))
     empty_database = (Fulfilled build, database_with_process) \<and>
   \<not> fulfilled (fst (pm_createJob IdentityResolver_without_jobs build
       (jobName (self build_compile)) database_with_process)) \<and>
   fst (load IdentityResolver_without_jobs (CacheStore ''ci-1'') idle_hooks build_compile) =
     Pending \<and>
   loaded (self (snd (load IdentityResolver_without_jobs (CacheStore ''ci-1'') idle_hooks
     build_compile))) = False \<and>
   process (self (snd (load IdentityResolver_without_jobs (CacheStore ''ci-1'') idle_hooks
     build_compile))) = Some build \<and>
   processJob (self (snd (load IdentityResolver_without_jobs (CacheStore ''ci-1'') idle_hooks
     build_compile))) = processJob (self build_compile)"
proof -
  have h1: "loaded (self build_compile) = False" by (simp add: eval_defs)
  have h2: "filter is_hook (calls_since build_compile
     (snd (load IdentityResolver_without_jobs (CacheStore ''ci-1'') idle_hooks build_compile))) = []"
    by (simp add: IdentityResolver_without_jobs_def eval_defs calls_since_def is_hook_def)
  have h3: "pm_load IdentityResolver_without_jobs (world build_compile) =
      (Fulfilled (), empty_database)"
    by (simp add: IdentityResolver_without_jobs_def eval_defs)
  have h4: "m_load (CacheStore ''ci-1'') empty_database = (Fulfilled (), empty_database)"
    by (simp add: eval_defs)
  have h5: "pm_createProcess IdentityResolver_without_jobs (processName (self build_compile))
     empty_database = (Fulfilled build, database_with_process)"
    by (simp add: IdentityResolver_without_jobs_def database_with_process_def eval_defs)
  have h6: "\<not> fulfilled (fst (pm_createJob IdentityResolver_without_jobs build
       (jobName (self build_compile)) database_with_process))"
    by (simp add: IdentityResolver_without_jobs_def fulfilled_def eval_defs)
  from load_failure_leaves_unloaded[OF h1 h2, of empty_database empty_database build
      database_with_process] h1 h2 h3 h4 h5 h6
  show ?thesis by blast
qed

text \<open>
  Claim C4 as stated fails: with a process manager whose \<open>createJob\<close> is rejected, \<open>load()\<close>
  on a fresh instance does not surface the error (its promise is never settled), and it
  leaves the resolved process in place next to a null job.
\<close>

theorem load_failure_counterexample:
  "fst (load IdentityResolver_without_jobs (CacheStore ''ci-1'') idle_hooks build_compile) =
     Pending \<and>
   process (self (snd (load IdentityResolver_without_jobs (CacheStore ''ci-1'') idle_hooks
     build_compile))) = Some build \<and>
   processJob (self (snd (load IdentityResolver_without_jobs (CacheStore ''ci-1'') idle_hooks
     build_compile))) = None"
  by (simp add: IdentityResolver_without_jobs_def eval_defs)

text \<open>
  Claim C9. Whenever the flag is true, both identities are non-null. For hooks that do not
  set an identity back to null: after any list of operations on a newly constructed job,
  if \<open>loaded\<close> is true then \<open>process\<close> and \<open>processJob\<close> are set; and no single operation,
  from any state, turns a set identity into null.
\<close>

theorem loaded_implies_identities:
  assumes "keeps_identities (onCacheExist H)" and "keeps_identities (onCacheEmpty H)"
  shows "(loaded (self (apply_operations PM M H ops (fresh pn jn w))) \<longrightarrow>
           process (self (apply_operations PM M H ops (fresh pn jn w))) \<noteq> None \<and>
           processJob (self (apply_operations PM M H ops (fresh pn jn w))) \<noteq> None) \<and>
         (process (self s) \<noteq> None \<longrightarrow> process (self (apply_operation PM M H s op)) \<noteq> None) \<and>
         (processJob (self s) \<noteq> None \<longrightarrow>
            processJob (self (apply_operation PM M H s op)) \<noteq> None)"
proof -
  have "resolved_when_loaded (fresh pn jn w)"
    by (simp add: resolved_when_loaded_def fresh_def constructor_def)
  from apply_operations_invariant[OF assms this, of PM M ops]
  show ?thesis
    using apply_operation_identities[OF assms, of s PM M op]
    by (simp add: resolved_when_loaded_def)
qed

theorem loaded_implies_identities_witness:
  "keeps_identities (onCacheExist (idle_hooks :: (database, ProcessModel, ProcessJobModel) hooks)) \<and>
   keeps_identities (onCacheEmpty (idle_hooks :: (database, ProcessModel, ProcessJobModel) hooks)) \<and>
   loaded (self (apply_operations IdentityResolver (CacheStore ''ci-1'') idle_hooks
     [CreateCache ''artifact-hash'' ''abc123'', Load, CreateCache ''artifact-hash'' ''abc123'', Load]
     (fresh ''build'' ''compile'' empty_database))) \<and>
   process (self (apply_operations IdentityResolver (CacheStore ''ci-1'') idle_hooks
     [CreateCache ''artifact-hash'' ''abc123'', Load, CreateCache ''artifact-hash'' ''abc123'', Load]
     (fresh ''build'' ''compile'' empty_database))) \<noteq> None \<and>
   processJob (self (apply_operations IdentityResolver (CacheStore ''ci-1'') idle_hooks
     [CreateCache ''artifact-hash'' ''abc123'', Load, CreateCache ''artifact-hash'' ''abc123'', Load]
     (fresh ''build'' ''compile'' empty_database))) \<noteq> None"
proof -
  have k1: "keeps_identities
      (onCacheExist (idle_hooks :: (database, ProcessModel, ProcessJobModel) hooks))"
    by (simp add: keeps_identities_def idle_hooks_def)
  have k2: "keeps_identities
      (onCacheEmpty (idle_hooks :: (database, ProcessModel, ProcessJobModel) hooks))"
    by (simp add: keeps_identities_def idle_hooks_def)
  have l: "loaded (self (apply_operations IdentityResolver (CacheStore ''ci-1'') idle_hooks
     [CreateCache ''artifact-hash'' ''abc123'', Load, CreateCache ''artifact-hash'' ''abc123'', Load]
     (fresh ''build'' ''compile'' empty_database)))"
    by (simp add: apply_operations_def eval_defs)
  from loaded_implies_identities[OF k1 k2, of IdentityResolver "CacheStore ''ci-1''"
      "[CreateCache ''artifact-hash'' ''abc123'', Load, CreateCache ''artifact-hash'' ''abc123'', Load]"
      "''build''" "''compile''" empty_database build_compile Load] k1 k2 l
  show ?thesis by blast
qed

section \<open>The public operations\<close>

text \<open>
  Claim C3, as the code has it. No public operation looks at the \<open>loaded\<close> flag, and none
  raises an error of its own: run on the same job with the flag set either way, each of
  \<open>createLog\<close>, \<open>getCache\<close>, \<open>hasCacheKey\<close>, \<open>hasCache\<close>, \<open>getFullCache\<close> and \<open>createCache\<close>
  ends the same way and has the same effects. Before \<open>load()\<close> they hand the machine the
  null process and job. The first five end exactly as the machine's method ends: they
  fail only if, and as, the machine fails.
\<close>

theorem public_operations_unguarded:
  "createLog M message logType (with_loaded b s) =
     apsnd (with_loaded b) (createLog M message logType s) \<and>
   getCache M key (with_loaded b s) = apsnd (with_loaded b) (getCache M key s) \<and>
   hasCacheKey M key (with_loaded b s) = apsnd (with_loaded b) (hasCacheKey M key s) \<and>
   hasCache M (with_loaded b s) = apsnd (with_loaded b) (hasCache M s) \<and>
   getFullCache M (with_loaded b s) = apsnd (with_loaded b) (getFullCache M s) \<and>
   createCache M key v (with_loaded b s) = apsnd (with_loaded b) (createCache M key v s) \<and>
   fst (createLog M message logType s) =
     fst (m_createLog M (process (self s)) (processJob (self s)) message logType (world s)) \<and>
   fst (getCache M key s) =
     fst (m_getCache M (process (self s)) (processJob (self s)) key (world s)) \<and>
   fst (hasCacheKey M key s) =
     fst (m_hasCacheKey M (process (self s)) (processJob (self s)) key (world s)) \<and>
   fst (hasCache M s) = fst (m_hasCache M (process (self s)) (processJob (self s)) (world s)) \<and>
   fst (getFullCache M s) =
     fst (m_getFullCache M (process (self s)) (processJob (self s)) (world s))"
proof -
  have flag:
    "createLog M message logType (with_loaded b s) =
       apsnd (with_loaded b) (createLog M message logType s)"
    "getCache M key (with_loaded b s) = apsnd (with_loaded b) (getCache M key s)"
    "hasCacheKey M key (with_loaded b s) = apsnd (with_loaded b) (hasCacheKey M key s)"
    "hasCache M (with_loaded b s) = apsnd (with_loaded b) (hasCache M s)"
    "getFullCache M (with_loaded b s) = apsnd (with_loaded b) (getFullCache M s)"
    "createCache M key v (with_loaded b s) = apsnd (with_loaded b) (createCache M key v s)"
    by (auto simp: createLog_def getCache_def hasCacheKey_def hasCache_def getFullCache_def
        createCache_def with_loaded_def collaborator_def Let_def
        split: prod.splits outcome.splits sum.splits)
  have through:
    "fst (createLog M message logType s) =
       fst (m_createLog M (process (self s)) (processJob (self s)) message logType (world s))"
    "fst (getCache M key s) =
       fst (m_getCache M (process (self s)) (processJob (self s)) key (world s))"
    "fst (hasCacheKey M key s) =
       fst (m_hasCacheKey M (process (self s)) (processJob (self s)) key (world s))"
    "fst (hasCache M s) = fst (m_hasCache M (process (self s)) (processJob (self s)) (world s))"
    "fst (getFullCache M s) =
       fst (m_getFullCache M (process (self s)) (processJob (self s)) (world s))"
    by (auto simp: createLog_def getCache_def hasCacheKey_def hasCache_def getFullCache_def
        collaborator_def split: prod.splits)
  from flag through show ?thesis by simp
qed

text \<open>
  Claim C3 as stated fails: nothing in the job stops an operation that comes before
  \<open>load()\<close>. On a newly constructed job, with a machine that answers whatever it is
  handed, \<open>hasCache\<close> and \<open>createLog\<close> are fulfilled, and \<open>createCache\<close> is fulfilled and
  puts the record into both maps of the index, while \<open>loaded\<close> is false and both
  identities are null.
\<close>

theorem operations_before_load_counterexample:
  "loaded (self build_compile) = False \<and>
   process (self build_compile) = None \<and> processJob (self build_compile) = None \<and>
   fst (hasCache Machine_double build_compile) = Fulfilled False \<and>
   fst (createLog Machine_double ''started'' Generic build_compile) =
     Fulfilled \<lparr>l_id = 1, l_process = 0, l_job = 0, l_machine = ''ci-1'',
                l_message = ''started'', l_type = Generic\<rparr> \<and>
   fst (createCache Machine_double ''artifact-hash'' ''abc123'' build_compile) =
     Fulfilled \<lparr>pc_id = 1, pc_process = 0, pc_job = 0, pc_machine = ''ci-1'',
                pc_key = ''artifact-hash'', pc_value = ''abc123'', pc_createdAt = 0,
                pc_updatedAt = 0\<rparr> \<and>
   cacheResults (self (snd (createCache Machine_double ''artifact-hash'' ''abc123''
       build_compile))) 1 =
     Some \<lparr>pc_id = 1, pc_process = 0, pc_job = 0, pc_machine = ''ci-1'',
           pc_key = ''artifact-hash'', pc_value = ''abc123'', pc_createdAt = 0,
           pc_updatedAt = 0\<rparr> \<and>
   cacheTree (self (snd (createCache Machine_double ''artifact-hash'' ''abc123''
       build_compile))) ''artifact-hash'' =
     Some [\<lparr>pc_id = 1, pc_process = 0, pc_job = 0, pc_machine = ''ci-1'',
            pc_key = ''artifact-hash'', pc_value = ''abc123'', pc_createdAt = 0,
            pc_updatedAt = 0\<rparr>]"
  by (simp add: Machine_double_def eval_defs)

text \<open>
  Claim C10, as the code has it. \<open>createCache\<close> leaves the index alone when the insert
  fails: if \<open>machine.createCache\<close> does not end in a fulfilled promise, the job is left
  exactly as it was (neither \<open>cacheResults\<close> nor \<open>cacheTree\<close> is changed). When the machine's
  promise is rejected or never settles, the promise of \<open>createCache\<close> is never settled, so
  that failure does not reach the caller. There is one rejection path: when
  \<open>machine.createCache\<close> throws inside the executor, the promise of \<open>createCache\<close> is
  rejected with the error thrown; and that is the only way it is rejected.
\<close>

theorem createCache_storage_failure:
  assumes "\<not> fulfilled
     (fst (m_createCache M (process (self s)) (processJob (self s)) key v (world s)))"
  shows "self (snd (createCache M key v s)) = self s \<and>
     fst (createCache M key v s) =
       (case fst (m_createCache M (process (self s)) (processJob (self s)) key v (world s)) of
          Thrown e \<Rightarrow> Rejected e
        | _ \<Rightarrow> Pending) \<and>
     (\<forall>M' s' e.
        (fst (createCache M' key v s') = Rejected e) =
        (fst (m_createCache M' (process (self s')) (processJob (self s')) key v (world s')) =
           Thrown e))"
proof -
  have one: "self (snd (createCache M key v s)) = self s \<and>
     fst (createCache M key v s) =
       (case fst (m_createCache M (process (self s)) (processJob (self s)) key v (world s)) of
          Thrown e \<Rightarrow> Rejected e
        | _ \<Rightarrow> Pending)"
    using assms
    by (auto simp: createCache_def collaborator_def fulfilled_def Let_def
        split: prod.splits outcome.splits sum.splits)
  have two: "\<And>M' s' e.
        (fst (createCache M' key v s') = Rejected e) =
        (fst (m_createCache M' (process (self s')) (processJob (self s')) key v (world s')) =
           Thrown e)"
    by (auto simp: createCache_def collaborator_def Let_def
        split: prod.splits outcome.splits sum.splits)
  from one two show ?thesis by blast
qed

theorem createCache_storage_failure_witness:
  "\<not> fulfilled (fst (m_createCache (CacheStore_readonly ''ci-1'')
       (process (self (loaded_build_compile warm_database)))
       (processJob (self (loaded_build_compile warm_database)))
       ''artifact-hash'' ''def456'' (world (loaded_build_compile warm_database)))) \<and>
   self (snd (createCache (CacheStore_readonly ''ci-1'') ''artifact-hash'' ''def456''
       (loaded_build_compile warm_database))) = self (loaded_build_compile warm_database) \<and>
   fst (createCache (CacheStore_readonly ''ci-1'') ''artifact-hash'' ''def456''
       (loaded_build_compile warm_database)) = Pending"
proof -
  have h: "\<not> fulfilled (fst (m_createCache (CacheStore_readonly ''ci-1'')
       (process (self (loaded_build_compile warm_database)))
       (processJob (self (loaded_build_compile warm_database)))
       ''artifact-hash'' ''def456'' (world (loaded_build_compile warm_database))))"
    by (simp add: CacheStore_readonly_def eval_defs fulfilled_def)
  have m: "fst (m_createCache (CacheStore_readonly ''ci-1'')
       (process (self (loaded_build_compile warm_database)))
       (processJob (self (loaded_build_compile warm_database)))
       ''artifact-hash'' ''def456'' (world (loaded_build_compile warm_database))) =
     Rejected (CollaboratorError ''storage unavailable'')"
    by (simp add: CacheStore_readonly_def eval_defs)
  note t = createCache_storage_failure[OF h]
  from t[THEN conjunct1]
  have c1: "self (snd (createCache (CacheStore_readonly ''ci-1'') ''artifact-hash''
       ''def456'' (loaded_build_compile warm_database))) =
       self (loaded_build_compile warm_database)" .
  from t[THEN conjunct2, THEN conjunct1]
  have c2: "fst (createCache (CacheStore_readonly ''ci-1'') ''artifact-hash'' ''def456''
       (loaded_build_compile warm_database)) = Pending"
    by (simp add: m)
  from h c1 c2 show ?thesis by blast
qed

text \<open>
  Claim C10 as stated fails in its second half: the promise of \<open>createCache\<close> does have a
  rejection path. With a machine whose \<open>createCache\<close> throws, the promise of \<open>createCache\<close>
  on a loaded instance is rejected with the error thrown (and the index is untouched).
\<close>

theorem createCache_rejection_counterexample:
  "fst (createCache (CacheStore_throwing ''ci-1'') ''artifact-hash'' ''def456''
       (loaded_build_compile warm_database)) =
     Rejected (CollaboratorError ''storage unavailable'') \<and>
   self (snd (createCache (CacheStore_throwing ''ci-1'') ''artifact-hash'' ''def456''
       (loaded_build_compile warm_database))) = self (loaded_build_compile warm_database)"
  by (simp add: CacheStore_throwing_def eval_defs)

section \<open>The index\<close>

text \<open>
  Claim C5 does not hold of the code for every record. \<open>getFullCache\<close> returns three
  records, the second with the key "constructor". Reading \<open>cacheTree["constructor"]\<close> finds
  the function inherited from \<open>Object.prototype\<close>, so no sequence is created and \<open>push\<close>
  throws inside the executor: the promise of \<open>syncCache\<close> is never settled, the record is
  in neither map, and the record after it is not indexed either. (For records with
  ordinary keys the claim is \<open>syncCache_ordinary\<close> above.)
\<close>

theorem syncCache_constructor_key:
  "fst (m_getFullCache (CacheStore ''ci-1'') (Some build) (Some compile)
          constructor_key_database) =
     Fulfilled [cached 1 ''artifact-hash'' ''abc123'', cached 2 ''constructor'' ''x'',
                cached 3 ''artifact-hash'' ''def456''] \<and>
   fst (syncCache (CacheStore ''ci-1'') (loaded_build_compile constructor_key_database)) =
     Pending \<and>
   cacheTree (self (snd (syncCache (CacheStore ''ci-1'')
       (loaded_build_compile constructor_key_database)))) ''artifact-hash'' =
     Some [cached 1 ''artifact-hash'' ''abc123''] \<and>
   cacheTree (self (snd (syncCache (CacheStore ''ci-1'')
       (loaded_build_compile constructor_key_database)))) ''constructor'' = None \<and>
   cacheResults (self (snd (syncCache (CacheStore ''ci-1'')
       (loaded_build_compile constructor_key_database)))) 2 = None \<and>
   cacheResults (self (snd (syncCache (CacheStore ''ci-1'')
       (loaded_build_compile constructor_key_database)))) 3 = None"
  by (simp add: constructor_key_database_def eval_defs)

text \<open>
  Claim C6 does not hold of the code for every key. On a loaded instance whose index and
  storage are both empty, \<open>createCache("constructor", "x")\<close> inserts the record and stores
  it under its id, but \<open>push\<close> throws as in \<open>syncCache\<close>: the record is in no sequence of
  the tree, the promise of \<open>createCache\<close> is never settled, and a sync over the storage
  as it now is does not complete either. (For an ordinary key the index stays the index
  of the stored records: \<open>createCache_store_index\<close> above.)
\<close>

theorem createCache_constructor_key:
  "fst (createCache (CacheStore ''ci-1'') ''constructor'' ''x''
         (loaded_build_compile (database_with []))) = Pending \<and>
   cache (world (snd (createCache (CacheStore ''ci-1'') ''constructor'' ''x''
         (loaded_build_compile (database_with []))))) = [cached 1 ''constructor'' ''x''] \<and>
   cacheResults (self (snd (createCache (CacheStore ''ci-1'') ''constructor'' ''x''
         (loaded_build_compile (database_with []))))) 1 = Some (cached 1 ''constructor'' ''x'') \<and>
   cacheTree (self (snd (createCache (CacheStore ''ci-1'') ''constructor'' ''x''
         (loaded_build_compile (database_with []))))) ''constructor'' = None \<and>
   fst (syncCache (CacheStore ''ci-1'')
         (snd (createCache (CacheStore ''ci-1'') ''constructor'' ''x''
            (loaded_build_compile (database_with []))))) = Pending"
  by (simp add: eval_defs)

text \<open>
  Claim C7. Cache keys are not unique. On the cache store, for a loaded instance with
  process \<open>p\<close> and job \<open>pj\<close> on machine \<open>n\<close>: two \<open>createCache\<close> calls with the same key add
  two records \<open>r1\<close>, \<open>r2\<close> to the storage, with different ids, and \<open>getCache\<close> of that key
  then returns the records of the key that were there before, followed by \<open>r1\<close> and then
  \<open>r2\<close>. With an ordinary key the two promises are fulfilled with \<open>r1\<close> and \<open>r2\<close>.
\<close>

theorem createCache_same_key_twice:
  assumes "loaded (self s)" and "process (self s) = Some p" and "processJob (self s) = Some pj"
    and "s1 = snd (createCache (CacheStore n) key v1 s)"
    and "s2 = snd (createCache (CacheStore n) key v2 s1)"
    and "r1 = \<lparr>pc_id = int (length (cache (world s))) + 1, pc_process = p_id p, pc_job = j_id pj,
          pc_machine = n, pc_key = key, pc_value = v1, pc_createdAt = 0, pc_updatedAt = 0\<rparr>"
    and "r2 = \<lparr>pc_id = int (length (cache (world s))) + 2, pc_process = p_id p, pc_job = j_id pj,
          pc_machine = n, pc_key = key, pc_value = v2, pc_createdAt = 0, pc_updatedAt = 0\<rparr>"
  shows "cache (world s2) = cache (world s) @ [r1, r2] \<and> pc_id r1 \<noteq> pc_id r2 \<and>
     fst (getCache (CacheStore n) key s2) =
       Fulfilled (filter (\<lambda>r. scoped n p pj r \<and> pc_key r = key) (cache (world s)) @ [r1, r2]) \<and>
     (key \<notin> set Object_prototype_properties \<longrightarrow>
        fst (createCache (CacheStore n) key v1 s) = Fulfilled r1 \<and>
        fst (createCache (CacheStore n) key v2 s1) = Fulfilled r2)"
proof -
  note a = createCache_store[OF assms(2,3), of n key v1, folded assms(4)]
  from a have p1: "process (self s1) = Some p" and j1: "processJob (self s1) = Some pj"
    by simp_all
  note b = createCache_store[OF p1 j1, of n key v2, folded assms(5)]
  from a b have c: "cache (world s2) = cache (world s) @ [r1, r2]"
    by (simp add: assms(6,7))
  from b have p2: "process (self s2) = Some p" and j2: "processJob (self s2) = Some pj"
    by simp_all
  have g: "fst (getCache (CacheStore n) key s2) =
       Fulfilled (filter (\<lambda>r. scoped n p pj r \<and> pc_key r = key) (cache (world s)) @ [r1, r2])"
    using p2 j2 c
    by (simp add: getCache_def collaborator_def CacheStore_def CacheStore_select_def scoped_def
        assms(6,7))
  have o: "key \<notin> set Object_prototype_properties \<longrightarrow>
        fst (createCache (CacheStore n) key v1 s) = Fulfilled r1 \<and>
        fst (createCache (CacheStore n) key v2 s1) = Fulfilled r2"
    using createCache_store_ordinary[OF assms(2,3), of key n v1]
      createCache_store_ordinary[OF p1 j1, of key n v2] a
    by (simp add: ordinary_def assms(6,7))
  from c g o show ?thesis by (simp add: assms(6,7))
qed

theorem createCache_same_key_twice_witness:
  "loaded (self (loaded_build_compile (database_with []))) \<and>
   process (self (loaded_build_compile (database_with []))) = Some build \<and>
   processJob (self (loaded_build_compile (database_with []))) = Some compile \<and>
   cache (world (snd (createCache (CacheStore ''ci-1'') ''artifact-hash'' ''def456''
     (snd (createCache (CacheStore ''ci-1'') ''artifact-hash'' ''abc123''
        (loaded_build_compile (database_with []))))))) =
     [cached 1 ''artifact-hash'' ''abc123'', cached 2 ''artifact-hash'' ''def456''] \<and>
   fst (getCache (CacheStore ''ci-1'') ''artifact-hash''
     (snd (createCache (CacheStore ''ci-1'') ''artifact-hash'' ''def456''
       (snd (createCache (CacheStore ''ci-1'') ''artifact-hash'' ''abc123''
          (loaded_build_compile (database_with []))))))) =
     Fulfilled [cached 1 ''artifact-hash'' ''abc123'', cached 2 ''artifact-hash'' ''def456''] \<and>
   fst (createCache (CacheStore ''ci-1'') ''artifact-hash'' ''abc123''
          (loaded_build_compile (database_with []))) =
     Fulfilled (cached 1 ''artifact-hash'' ''abc123'')"
proof -
  have h1: "loaded (self (loaded_build_compile (database_with [])))"
    by (simp add: loaded_build_compile_def)
  have h2: "process (self (loaded_build_compile (database_with []))) = Some build"
    by (simp add: loaded_build_compile_def)
  have h3: "processJob (self (loaded_build_compile (database_with []))) = Some compile"
    by (simp add: loaded_build_compile_def)
  have o: "''artifact-hash'' \<notin> set Object_prototype_properties"
    by (simp add: Object_prototype_properties_def)
  have w: "cache (world (loaded_build_compile (database_with []))) = []"
    by (simp add: loaded_build_compile_def database_with_def)
  from createCache_same_key_twice[OF h1 h2 h3 refl refl refl refl,
      of "''ci-1''" "''artifact-hash''" "''def456''" "''abc123''"] o
  have "cache (world (snd (createCache (CacheStore ''ci-1'') ''artifact-hash'' ''def456''
     (snd (createCache (CacheStore ''ci-1'') ''artifact-hash'' ''abc123''
        (loaded_build_compile (database_with []))))))) =
     [cached 1 ''artifact-hash'' ''abc123'', cached 2 ''artifact-hash'' ''def456''] \<and>
   fst (getCache (CacheStore ''ci-1'') ''artifact-hash''
     (snd (createCache (CacheStore ''ci-1'') ''artifact-hash'' ''def456''
       (snd (createCache (CacheStore ''ci-1'') ''artifact-hash'' ''abc123''
          (loaded_build_compile (database_with []))))))) =
     Fulfilled [cached 1 ''artifact-hash'' ''abc123'', cached 2 ''artifact-hash'' ''def456''] \<and>
   fst (createCache (CacheStore ''ci-1'') ''artifact-hash'' ''abc123''
          (loaded_build_compile (database_with []))) =
     Fulfilled (cached 1 ''artifact-hash'' ''abc123'')"
    by (simp add: w cached_def build_def compile_def)
  with h1 h2 h3 show ?thesis by blast
qed

section \<open>The table's timestamps\<close>

text \<open>
  Claim C8. The storage layer does not stamp \<open>createdAt\<close> and \<open>updatedAt\<close>. The model is
  initialised with the \<open>timestamps\<close> option off, and both columns are integer columns with
  default 0. So a row inserted with a value (the one column that has no default) holds,
  in each of the two columns, what the caller gave for it, and 0 if the caller gave
  nothing: whatever the clock \<open>now\<close> says, it is not stored.
\<close>

theorem timestamps_caller_managed:
  assumes "given ''value'' = Some v"
  shows "timestamps (ProcessCacheFactory_init mn) = False \<and>
    map_of ProcessCacheAttributeDefinition ''createdAt'' =
      Some \<lparr>attr_type = INTEGER, primaryKey = False, allowNull = False,
            defaultValue = Some (IntVal 0), autoIncrement = False\<rparr> \<and>
    map_of ProcessCacheAttributeDefinition ''updatedAt'' =
      Some \<lparr>attr_type = INTEGER, primaryKey = False, allowNull = False,
            defaultValue = Some (IntVal 0), autoIncrement = False\<rparr> \<and>
    (\<exists>row. ProcessCache_create mn now next_id given = Inr row \<and>
       map_of row ''createdAt'' =
         Some (Some (case given ''createdAt'' of None \<Rightarrow> IntVal 0 | Some c \<Rightarrow> c)) \<and>
       map_of row ''updatedAt'' =
         Some (Some (case given ''updatedAt'' of None \<Rightarrow> IntVal 0 | Some c \<Rightarrow> c)))"
  using assms
  by (simp add: ProcessCache_create_def ProcessCacheFactory_init_def
      ProcessCacheAttributeDefinition_def stored_column_default stored_column_autoIncrement
      stored_column_given)

theorem timestamps_caller_managed_witness:
  "insert_given ''value'' = Some (StrVal ''abc123'') \<and>
   insert_given ''createdAt'' = None \<and> insert_given ''updatedAt'' = None \<and>
   (\<exists>row. ProcessCache_create ''ProcessCache'' 1700000000 1 insert_given = Inr row \<and>
      map_of row ''createdAt'' = Some (Some (IntVal 0)) \<and>
      map_of row ''updatedAt'' = Some (Some (IntVal 0)))"
proof -
  have h: "insert_given ''value'' = Some (StrVal ''abc123'')"
    by (simp add: insert_given_def)
  have n: "insert_given ''createdAt'' = None" "insert_given ''updatedAt'' = None"
    by (simp_all add: insert_given_def)
  from timestamps_caller_managed[where given = insert_given and mn = "''ProcessCache''"
      and now = 1700000000 and next_id = 1, OF h] h n
  show ?thesis by simp
qed


end
